theory Spec2Isabelle
  imports Main "HOL-Library.List_Lexorder" "HOL-Library.Char_ord"
begin

section \<open>JavaScript primitives used by the providers\<close>

text \<open>
  Strings are lists of code units (\<open>string\<close>). Integers that the code only adds,
  compares and divides (counts, token totals, epoch milliseconds) are \<open>int\<close>; the
  division \<open>Math.floor(a / b)\<close> of two such numbers with \<open>b > 0\<close> is \<open>a div b\<close>, which
  rounds towards minus infinity as \<open>Math.floor\<close> does.
\<close>

text \<open>\<open>s.includes(sub)\<close>: \<open>sub\<close> occurs in \<open>s\<close> as a contiguous run.\<close>

primrec str_includes :: "string \<Rightarrow> string \<Rightarrow> bool" where
  "str_includes [] sub = (sub = [])"
| "str_includes (c # cs) sub = (take (length sub) (c # cs) = sub \<or> str_includes cs sub)"

text \<open>\<open>s.endsWith(suffix)\<close>.\<close>

definition endsWith :: "string \<Rightarrow> string \<Rightarrow> bool" where
  "endsWith s suffix =
     (length suffix \<le> length s \<and> drop (length s - length suffix) s = suffix)"

text \<open>\<open>s.split(c)\<close> for a one-character separator: always at least one piece.\<close>

fun split_on :: "char \<Rightarrow> string \<Rightarrow> string list" where
  "split_on c [] = [[]]"
| "split_on c (x # xs) =
     (if x = c then [] # split_on c xs
      else (case split_on c xs of
              [] \<Rightarrow> [[x]]
            | p # ps \<Rightarrow> (x # p) # ps))"

text \<open>
  \<open>s.trim()\<close>: strips white space and line terminators at both ends. Of the code
  points ECMAScript counts as such, the ones that fit a \<open>char\<close> are TAB, LF, VT, FF, CR,
  SPACE and NBSP.
\<close>

definition isWhiteSpace :: "char \<Rightarrow> bool" where
  "isWhiteSpace c = (c \<in> set [CHR 0x09, CHR 0x0A, CHR 0x0B, CHR 0x0C, CHR 0x0D, CHR 0x20, CHR 0xA0])"

definition trim :: "string \<Rightarrow> string" where
  "trim s = rev (dropWhile isWhiteSpace (rev (dropWhile isWhiteSpace s)))"

text \<open>
  \<open>xs.slice(start)\<close> with one argument: a negative \<open>start\<close> counts from the end, and
  the start index is clamped to \<open>0 .. xs.length\<close>.
\<close>

definition js_slice :: "int \<Rightarrow> 'a list \<Rightarrow> 'a list" where
  "js_slice start xs =
     (let len = int (length xs);
          k = (if start < 0 then max (len + start) 0 else min start len)
      in drop (nat k) xs)"

text \<open>
  \<open>xs.sort(comparefn)\<close>: a stable sort (ECMAScript 2019). It is modelled by stable
  insertion: an element goes in front of the first later element it does not have to
  follow (\<open>comparefn(x, y) \<le> 0\<close>). For a consistent comparator every stable sort
  returns this list; for an inconsistent one ECMAScript leaves the order to the engine,
  and the model is used only on inputs the engine leaves as they are.
\<close>

primrec insort_cmp :: "('a \<Rightarrow> 'a \<Rightarrow> int) \<Rightarrow> 'a \<Rightarrow> 'a list \<Rightarrow> 'a list" where
  "insort_cmp cmp x [] = [x]"
| "insort_cmp cmp x (y # ys) =
     (if cmp x y \<le> 0 then x # y # ys else y # insort_cmp cmp x ys)"

definition js_sort :: "('a \<Rightarrow> 'a \<Rightarrow> int) \<Rightarrow> 'a list \<Rightarrow> 'a list" where
  "js_sort cmp xs = foldr (insort_cmp cmp) xs []"

text \<open>
  A time value as \<open>date.getTime()\<close> returns it: epoch milliseconds, or \<open>NaN\<close>
  (\<open>None\<close>) for an invalid date. The comparator \<open>b.getTime() - a.getTime()\<close> is
  \<open>NaN\<close> as soon as one side is, and \<open>sort\<close> reads a \<open>NaN\<close> result as \<open>+0\<close>.
\<close>

type_synonym timeval = "int option"

fun time_minus :: "timeval \<Rightarrow> timeval \<Rightarrow> int" where
  "time_minus (Some x) (Some y) = x - y"
| "time_minus _ _ = 0"

text \<open>\<open>a >= b\<close> on time values: false as soon as one side is \<open>NaN\<close>.\<close>

fun time_ge :: "timeval \<Rightarrow> timeval \<Rightarrow> bool" where
  "time_ge (Some x) (Some y) = (y \<le> x)"
| "time_ge _ _ = False"

text \<open>Template-literal printing of a non-negative integer: its decimal digits.\<close>

definition digit_char :: "nat \<Rightarrow> char" where
  "digit_char d =
     (if d = 0 then CHR ''0'' else if d = 1 then CHR ''1'' else if d = 2 then CHR ''2''
      else if d = 3 then CHR ''3'' else if d = 4 then CHR ''4'' else if d = 5 then CHR ''5''
      else if d = 6 then CHR ''6'' else if d = 7 then CHR ''7'' else if d = 8 then CHR ''8''
      else CHR ''9'')"

fun show_nat :: "nat \<Rightarrow> string" where
  "show_nat n =
     (if n < 10 then [digit_char n] else show_nat (n div 10) @ [digit_char (n mod 10)])"

declare show_nat.simps [simp del]

definition show_int :: "int \<Rightarrow> string" where
  "show_int i = (if i < 0 then CHR ''-'' # show_nat (nat (- i)) else show_nat (nat i))"

text \<open>\<open>x || 0\<close> on a count that may be missing from the parsed JSON.\<close>

fun or0 :: "int option \<Rightarrow> int" where
  "or0 None = 0"
| "or0 (Some n) = n"

section \<open>The file system and the host\<close>

text \<open>
  The file system is a store from paths to nodes. A directory lists its entries with
  the type flag \<open>readdirSync(.., {withFileTypes: true})\<close> reports; a file has its text
  and the size \<open>statSync\<close> reports.
\<close>

record dirent =
  d_name :: string
  d_isDirectory :: bool

datatype node = File string nat | Dir "dirent list"

type_synonym filesystem = "string \<Rightarrow> node option"

datatype error = IOError | TypeError

definition existsSync :: "filesystem \<Rightarrow> string \<Rightarrow> bool" where
  "existsSync f p = (f p \<noteq> None)"

definition readdirSync :: "filesystem \<Rightarrow> string \<Rightarrow> error + dirent list" where
  "readdirSync f p = (case f p of Some (Dir es) \<Rightarrow> Inr es | _ \<Rightarrow> Inl IOError)"

definition readFileSync :: "filesystem \<Rightarrow> string \<Rightarrow> error + string" where
  "readFileSync f p = (case f p of Some (File content sz) \<Rightarrow> Inr content | _ \<Rightarrow> Inl IOError)"

text \<open>\<open>statSync(p).size\<close>; the providers only ask it of a file they have just read.\<close>

definition statSync_size :: "filesystem \<Rightarrow> string \<Rightarrow> error + nat" where
  "statSync_size f p =
     (case f p of Some (File content sz) \<Rightarrow> Inr sz | Some (Dir es) \<Rightarrow> Inr 0 | None \<Rightarrow> Inl IOError)"

text \<open>
  \<open>path.join(a, b)\<close> on POSIX, for a normalised \<open>a\<close> other than the root and a
  single segment \<open>b\<close> as \<open>readdirSync\<close> returns it.
\<close>

definition path_join :: "string \<Rightarrow> string \<Rightarrow> string" where
  "path_join a b = a @ ''/'' @ b"

text \<open>\<open>path.basename(p)\<close> on POSIX: the last segment, trailing separators dropped.\<close>

definition basename :: "string \<Rightarrow> string" where
  "basename p =
     rev (takeWhile (\<lambda>c. c \<noteq> CHR ''/'') (dropWhile (\<lambda>c. c = CHR ''/'') (rev p)))"

text \<open>
  A parsed JSON value, for the one place where the code inspects the shape of what
  \<open>JSON.parse\<close> returned. \<open>JUndefined\<close> is what reading a missing property gives.
\<close>

datatype jsval =
    JUndefined | JNull | JBool bool | JNum int | JStr string
  | JArr "jsval list" | JObj "(string \<times> jsval) list"

text \<open>
  \<open>v.k\<close> for the property names the scanner reads (none of them is a built-in
  property of strings, numbers, booleans or arrays): a \<open>TypeError\<close> on \<open>null\<close> and
  \<open>undefined\<close>, \<open>undefined\<close> for a missing property.
\<close>

fun getProp :: "jsval \<Rightarrow> string \<Rightarrow> error + jsval" where
  "getProp JUndefined k = Inl TypeError"
| "getProp JNull k = Inl TypeError"
| "getProp (JObj kvs) k = Inr (case map_of kvs k of Some v \<Rightarrow> v | None \<Rightarrow> JUndefined)"
| "getProp v k = Inr JUndefined"

fun truthy :: "jsval \<Rightarrow> bool" where
  "truthy JUndefined = False"
| "truthy JNull = False"
| "truthy (JBool b) = b"
| "truthy (JNum n) = (n \<noteq> 0)"
| "truthy (JStr s) = (s \<noteq> [])"
| "truthy (JArr xs) = True"
| "truthy (JObj kvs) = True"

section \<open>The data model (types.ts)\<close>

record ClaudeSession =
  cs_sessionId :: string
  cs_fullPath :: string
  cs_fileMtime :: int
  cs_messageCount :: int
  cs_created :: string
  cs_modified :: string
  cs_gitBranch :: "string option"
  cs_projectPath :: string

record SessionsIndex =
  si_version :: int
  si_entries :: "ClaudeSession list option"
  si_sessions :: "ClaudeSession list option"
  si_originalPath :: "string option"

text \<open>
  The counts the code reads through \<open>|| 0\<close> are optional here (\<open>None\<close>: missing from
  the JSON), so that the guard is a branch of the model.
\<close>

record DailyActivity =
  da_date :: string
  da_messageCount :: "int option"
  da_sessionCount :: "int option"
  da_toolCallCount :: "int option"

text \<open>
  The per-day token entry as \<open>getTodayStats\<close> reads it: the per-model totals are under
  \<open>tokensByModel\<close>, one number per model, in the key order \<open>Object.values\<close> follows
  (\<open>None\<close> for a value that \<open>|| 0\<close> replaces). The interface in types.ts names the
  field \<open>modelTokens\<close> and gives it a \<open>TokenUsage\<close> per model; the function does not
  read that field, and its comment says the daily entry has one total per model.
\<close>

record DailyModelTokens =
  dmt_date :: string
  dmt_tokensByModel :: "(string \<times> int option) list option"

record TokenUsage =
  tu_inputTokens :: "int option"
  tu_outputTokens :: "int option"
  tu_cacheReadInputTokens :: "int option"
  tu_cacheCreationInputTokens :: "int option"

text \<open>\<open>modelUsage\<close> is the list \<open>Object.entries\<close> returns: distinct keys, in insertion order.\<close>

record ClaudeStats =
  st_version :: int
  st_lastComputedDate :: string
  st_dailyActivity :: "DailyActivity list option"
  st_dailyModelTokens :: "DailyModelTokens list option"
  st_modelUsage :: "(string \<times> TokenUsage) list option"
  st_totalSessions :: int
  st_totalMessages :: int

record HistoryEntry =
  he_display :: string
  he_timestamp :: int
  he_project :: "string option"
  he_sessionId :: "string option"

record ProjectInfo =
  pi_name :: string
  pi_path :: string
  pi_escapedPath :: string
  pi_sessions :: "ClaudeSession list"
  pi_totalMessages :: int
  pi_lastModified :: int

text \<open>
  A Codex session as \<open>parseSessionFile\<close> builds it: the fields copied from the payload
  hold whatever JSON value the payload has there.
\<close>

record CodexSession =
  cx_id :: jsval
  cx_timestamp :: jsval
  cx_cwd :: jsval
  cx_model_provider :: jsval
  cx_cli_version :: jsval
  cx_source :: jsval
  cx_filePath :: string
  cx_fileSize :: nat

text \<open>
  What the providers take from their host: the file system, the home directory, the
  clock, and the library functions whose result is a matter of the engine
  (\<open>JSON.parse\<close>, read at the type the caller casts its result to where the caller
  casts it, with \<open>None\<close> when it throws or returns \<open>null\<close>; \<open>new Date(v).getTime()\<close>;
  \<open>toISOString\<close>; \<open>toLocaleDateString\<close>). The scanner of Codex transcripts inspects
  the parsed value itself, so there \<open>JSON_parse\<close> returns a \<open>jsval\<close>.
\<close>

record host =
  fs :: filesystem
  homedir :: string
  now :: int
  JSON_parse :: "string \<Rightarrow> jsval option"
  JSON_parse_index :: "string \<Rightarrow> SessionsIndex option"
  JSON_parse_stats :: "string \<Rightarrow> ClaudeStats option"
  JSON_parse_history :: "string \<Rightarrow> HistoryEntry option"
  Date_getTime :: "jsval \<Rightarrow> timeval"
  toISOString :: "int \<Rightarrow> string"
  toLocaleDateString :: "int \<Rightarrow> string"

section \<open>ClaudeDataProvider\<close>

definition claudeDir :: "host \<Rightarrow> string" where
  "claudeDir h = path_join (homedir h) ''.claude''"

definition getShortModelName :: "string \<Rightarrow> string" where
  "getShortModelName fullName =
     (if str_includes fullName ''opus'' then ''Opus''
      else if str_includes fullName ''sonnet'' then ''Sonnet''
      else if str_includes fullName ''haiku'' then ''Haiku''
      else hd (split_on (CHR ''-'') fullName))"

definition unescapePath :: "string \<Rightarrow> string" where
  "unescapePath escapedPath = map (\<lambda>c. if c = CHR ''-'' then CHR ''/'' else c) escapedPath"

text \<open>
  \<open>formatRelativeTime\<close>, for a valid \<open>Date\<close> given by its time value in milliseconds.
\<close>

definition formatRelativeTime :: "host \<Rightarrow> int \<Rightarrow> string" where
  "formatRelativeTime h date =
     (let diffMs = now h - date;
          diffMins = diffMs div 60000;
          diffHours = diffMs div 3600000;
          diffDays = diffMs div 86400000
      in if diffMins < 1 then ''just now''
         else if diffMins < 60 then show_int diffMins @ ''m ago''
         else if diffHours < 24 then show_int diffHours @ ''h ago''
         else if diffDays < 7 then show_int diffDays @ ''d ago''
         else toLocaleDateString h date)"

text \<open>
  \<open>getStats\<close>: \<open>null\<close> when the cache file is absent, unreadable or not JSON.
\<close>

definition getStats :: "host \<Rightarrow> ClaudeStats option" where
  "getStats h =
     (let statsPath = path_join (claudeDir h) ''stats-cache.json''
      in if \<not> existsSync (fs h) statsPath then None
         else (case readFileSync (fs h) statsPath of
                 Inl e \<Rightarrow> None
               | Inr content \<Rightarrow> JSON_parse_stats h content))"

text \<open>
  \<open>getRecentHistory\<close>. \<open>nonEmptyLines\<close> is \<open>content.trim().split('\n').filter(Boolean)\<close>;
  the loop that pushes every line \<open>JSON.parse\<close> accepts is \<open>List.map_filter\<close>.
\<close>

definition nonEmptyLines :: "string \<Rightarrow> string list" where
  "nonEmptyLines content = filter (\<lambda>l. l \<noteq> []) (split_on (CHR 0x0A) (trim content))"

definition getRecentHistory :: "host \<Rightarrow> int \<Rightarrow> HistoryEntry list" where
  "getRecentHistory h limit =
     (let historyPath = path_join (claudeDir h) ''history.jsonl''
      in if \<not> existsSync (fs h) historyPath then []
         else (case readFileSync (fs h) historyPath of
                 Inl e \<Rightarrow> []
               | Inr content \<Rightarrow>
                   (let lines = nonEmptyLines content;
                        entries = List.map_filter (JSON_parse_history h) (js_slice (- limit) lines)
                    in rev entries)))"

text \<open>The snapshot \<open>getTodayStats\<close> returns.\<close>

record snapshot =
  sn_messages :: int
  sn_sessions :: int
  sn_toolCalls :: int
  sn_totalTokens :: int
  sn_date :: string

text \<open>\<open>new Date().toISOString().split('T')[0]\<close>.\<close>

definition today :: "host \<Rightarrow> string" where
  "today h = hd (split_on (CHR ''T'') (toISOString h (now h)))"

text \<open>The loop over \<open>Object.values(tokenData.tokensByModel)\<close>.\<close>

definition sumTokens :: "DailyModelTokens option \<Rightarrow> int" where
  "sumTokens tokenData =
     (case tokenData of
        None \<Rightarrow> 0
      | Some td \<Rightarrow>
          (case dmt_tokensByModel td of
             None \<Rightarrow> 0
           | Some byModel \<Rightarrow> fold (\<lambda>count totalTokens. totalTokens + or0 count) (map snd byModel) 0))"

text \<open>\<open>xs?.[xs.length - 1]\<close>: \<open>undefined\<close> for a missing or empty list.\<close>

definition lastOpt :: "'a list option \<Rightarrow> 'a option" where
  "lastOpt xs = (case xs of None \<Rightarrow> None | Some ys \<Rightarrow> if ys = [] then None else Some (last ys))"

text \<open>\<open>xs?.find(p)\<close>.\<close>

definition findOpt :: "('a \<Rightarrow> bool) \<Rightarrow> 'a list option \<Rightarrow> 'a option" where
  "findOpt p xs = (case xs of None \<Rightarrow> None | Some ys \<Rightarrow> find p ys)"

definition getTodayStats :: "host \<Rightarrow> snapshot" where
  "getTodayStats h =
     (let zeros = \<lparr>sn_messages = 0, sn_sessions = 0, sn_toolCalls = 0, sn_totalTokens = 0,
                   sn_date = today h\<rparr>
      in case getStats h of
           None \<Rightarrow> zeros
         | Some stats \<Rightarrow>
             (case st_dailyActivity stats of
                None \<Rightarrow> zeros
              | Some dailyActivity \<Rightarrow>
                  if dailyActivity = [] then zeros
                  else
                    (let (activity, tokenData, dateLabel) =
                           (case find (\<lambda>d. da_date d = today h) dailyActivity of
                              Some a \<Rightarrow>
                                (a, findOpt (\<lambda>d. dmt_date d = today h) (st_dailyModelTokens stats),
                                 today h)
                            | None \<Rightarrow>
                                (last dailyActivity, lastOpt (st_dailyModelTokens stats),
                                 if da_date (last dailyActivity) = [] then today h
                                 else da_date (last dailyActivity)))
                     in \<lparr>sn_messages = or0 (da_messageCount activity),
                         sn_sessions = or0 (da_sessionCount activity),
                         sn_toolCalls = or0 (da_toolCallCount activity),
                         sn_totalTokens = sumTokens tokenData,
                         sn_date = dateLabel\<rparr>)))"

text \<open>
  \<open>getModelUsage\<close>. The result object is a map from short names; the loop over
  \<open>Object.entries(stats.modelUsage)\<close> assigns \<open>result[shortName]\<close> once per entry.
\<close>

record usage =
  u_input :: int
  u_output :: int

definition getModelUsage :: "host \<Rightarrow> (string \<rightharpoonup> usage)" where
  "getModelUsage h =
     (case getStats h of
        None \<Rightarrow> Map.empty
      | Some stats \<Rightarrow>
          (case st_modelUsage stats of
             None \<Rightarrow> Map.empty
           | Some modelUsage \<Rightarrow>
               fold (\<lambda>(model, usage) result.
                       result(getShortModelName model \<mapsto>
                                \<lparr>u_input = or0 (tu_inputTokens usage),
                                 u_output = or0 (tu_outputTokens usage)\<rparr>))
                    modelUsage Map.empty))"

text \<open>
  \<open>getProjects\<close>. \<open>scanProjectEntry\<close> is the body of the loop over the directory
  entries: \<open>None\<close> when the entry is skipped (not a directory, no index file, or an
  exception inside the \<open>try\<close>).
\<close>

definition session_time :: "host \<Rightarrow> ClaudeSession \<Rightarrow> timeval" where
  "session_time h s = Date_getTime h (JStr (cs_modified s))"

definition scanProjectEntry :: "host \<Rightarrow> string \<Rightarrow> dirent \<Rightarrow> ProjectInfo option" where
  "scanProjectEntry h projectsDir entry =
     (if \<not> d_isDirectory entry then None
      else
        (let indexPath = path_join (path_join projectsDir (d_name entry)) ''sessions-index.json''
         in if \<not> existsSync (fs h) indexPath then None
            else
              (case readFileSync (fs h) indexPath of
                 Inl e \<Rightarrow> None
               | Inr indexContent \<Rightarrow>
                   (case JSON_parse_index h indexContent of
                      None \<Rightarrow> None
                    | Some index \<Rightarrow>
                        (let projectPath =
                               (case si_originalPath index of
                                  None \<Rightarrow> unescapePath (d_name entry)
                                | Some p \<Rightarrow> if p = [] then unescapePath (d_name entry) else p);
                             projectName = basename projectPath;
                             sessions =
                               (case si_entries index of
                                  Some es \<Rightarrow> es
                                | None \<Rightarrow> (case si_sessions index of Some ss \<Rightarrow> ss | None \<Rightarrow> []));
                             totalMessages = fold (\<lambda>s sum. sum + cs_messageCount s) sessions 0;
                             lastModified =
                               fold (\<lambda>session lastModified.
                                       case session_time h session of
                                         None \<Rightarrow> lastModified
                                       | Some modified \<Rightarrow>
                                           if modified > lastModified then modified else lastModified)
                                    sessions 0
                         in Some \<lparr>pi_name = projectName,
                                  pi_path = projectPath,
                                  pi_escapedPath = d_name entry,
                                  pi_sessions =
                                    js_sort (\<lambda>a b. time_minus (session_time h b) (session_time h a))
                                      sessions,
                                  pi_totalMessages = totalMessages,
                                  pi_lastModified = lastModified\<rparr>)))))"

definition getProjects :: "host \<Rightarrow> error + ProjectInfo list" where
  "getProjects h =
     (let projectsDir = path_join (claudeDir h) ''projects''
      in if \<not> existsSync (fs h) projectsDir then Inr []
         else
           (case readdirSync (fs h) projectsDir of
              Inl e \<Rightarrow> Inl e
            | Inr entries \<Rightarrow>
                Inr (js_sort (\<lambda>a b. pi_lastModified b - pi_lastModified a)
                       (List.map_filter (scanProjectEntry h projectsDir) entries))))"

section \<open>CodexDataProvider\<close>

definition codexDir :: "host \<Rightarrow> string" where
  "codexDir h = path_join (homedir h) ''.codex''"

text \<open>\<open>a || b\<close> on JSON values.\<close>

definition js_or :: "jsval \<Rightarrow> jsval \<Rightarrow> jsval" where
  "js_or a b = (if truthy a then a else b)"

text \<open>
  \<open>parseSessionFile\<close>: every exception inside it (unreadable file, first line not
  JSON, property read on \<open>null\<close>, failing \<open>statSync\<close>) is caught and gives \<open>null\<close>.
  A truthy payload is never \<open>null\<close> or \<open>undefined\<close>, so reading its properties does
  not throw; \<open>payloadProp\<close> reads one.
\<close>

definition payloadProp :: "jsval \<Rightarrow> string \<Rightarrow> jsval" where
  "payloadProp meta k = (case getProp meta k of Inl e \<Rightarrow> JUndefined | Inr v \<Rightarrow> v)"

definition parseSessionFile :: "host \<Rightarrow> string \<Rightarrow> CodexSession option" where
  "parseSessionFile h filePath =
     (case readFileSync (fs h) filePath of
        Inl e \<Rightarrow> None
      | Inr content \<Rightarrow>
          (let firstLine = hd (split_on (CHR 0x0A) content)
           in case JSON_parse h firstLine of
                None \<Rightarrow> None
              | Some firstEvent \<Rightarrow>
                  (case getProp firstEvent ''type'' of
                     Inl e \<Rightarrow> None
                   | Inr ty \<Rightarrow>
                       if ty \<noteq> JStr ''session_meta'' then None
                       else
                         (case getProp firstEvent ''payload'' of
                            Inl e \<Rightarrow> None
                          | Inr meta \<Rightarrow>
                              if \<not> truthy meta then None
                              else
                                (case statSync_size (fs h) filePath of
                                   Inl e \<Rightarrow> None
                                 | Inr sz \<Rightarrow>
                                     Some \<lparr>cx_id = payloadProp meta ''id'',
                                           cx_timestamp = payloadProp meta ''timestamp'',
                                           cx_cwd = payloadProp meta ''cwd'',
                                           cx_model_provider =
                                             js_or (payloadProp meta ''model_provider'') (JStr ''openai''),
                                           cx_cli_version = payloadProp meta ''cli_version'',
                                           cx_source = js_or (payloadProp meta ''source'') (JStr ''cli''),
                                           cx_filePath = filePath,
                                           cx_fileSize = sz\<rparr>)))))"

text \<open>
  The four nested loops of \<open>getSessions\<close>, innermost first. They run inside one
  \<open>try\<close>: a \<open>readdirSync\<close> that throws ends the whole walk, and the sessions pushed so
  far stay in the array. Each walk returns the array and whether an exception left it.
\<close>

fun walkFiles :: "host \<Rightarrow> string \<Rightarrow> string list \<Rightarrow> CodexSession list \<Rightarrow> CodexSession list" where
  "walkFiles h dayPath [] sessions = sessions"
| "walkFiles h dayPath (file # files) sessions =
     (if \<not> endsWith file ''.jsonl'' then walkFiles h dayPath files sessions
      else
        (case parseSessionFile h (path_join dayPath file) of
           None \<Rightarrow> walkFiles h dayPath files sessions
         | Some session \<Rightarrow> walkFiles h dayPath files (sessions @ [session])))"

fun walkDays :: "host \<Rightarrow> string \<Rightarrow> dirent list \<Rightarrow> CodexSession list \<Rightarrow> CodexSession list \<times> bool" where
  "walkDays h monthPath [] sessions = (sessions, False)"
| "walkDays h monthPath (day # days) sessions =
     (if \<not> d_isDirectory day then walkDays h monthPath days sessions
      else
        (let dayPath = path_join monthPath (d_name day)
         in case readdirSync (fs h) dayPath of
              Inl e \<Rightarrow> (sessions, True)
            | Inr files \<Rightarrow>
                walkDays h monthPath days (walkFiles h dayPath (map d_name files) sessions)))"

fun walkMonths :: "host \<Rightarrow> string \<Rightarrow> dirent list \<Rightarrow> CodexSession list \<Rightarrow> CodexSession list \<times> bool" where
  "walkMonths h yearPath [] sessions = (sessions, False)"
| "walkMonths h yearPath (month # months) sessions =
     (if \<not> d_isDirectory month then walkMonths h yearPath months sessions
      else
        (let monthPath = path_join yearPath (d_name month)
         in case readdirSync (fs h) monthPath of
              Inl e \<Rightarrow> (sessions, True)
            | Inr days \<Rightarrow>
                (case walkDays h monthPath days sessions of
                   (sessions', True) \<Rightarrow> (sessions', True)
                 | (sessions', False) \<Rightarrow> walkMonths h yearPath months sessions')))"

fun walkYears :: "host \<Rightarrow> string \<Rightarrow> dirent list \<Rightarrow> CodexSession list \<Rightarrow> CodexSession list \<times> bool" where
  "walkYears h sessionsDir [] sessions = (sessions, False)"
| "walkYears h sessionsDir (year # years) sessions =
     (if \<not> d_isDirectory year then walkYears h sessionsDir years sessions
      else
        (let yearPath = path_join sessionsDir (d_name year)
         in case readdirSync (fs h) yearPath of
              Inl e \<Rightarrow> (sessions, True)
            | Inr months \<Rightarrow>
                (case walkMonths h yearPath months sessions of
                   (sessions', True) \<Rightarrow> (sessions', True)
                 | (sessions', False) \<Rightarrow> walkYears h sessionsDir years sessions')))"

definition codex_time :: "host \<Rightarrow> CodexSession \<Rightarrow> timeval" where
  "codex_time h s = Date_getTime h (cx_timestamp s)"

definition getSessions :: "host \<Rightarrow> CodexSession list" where
  "getSessions h =
     (let sessionsDir = path_join (codexDir h) ''sessions''
      in if \<not> existsSync (fs h) sessionsDir then []
         else
           (let sessions =
                  (case readdirSync (fs h) sessionsDir of
                     Inl e \<Rightarrow> []
                   | Inr years \<Rightarrow> fst (walkYears h sessionsDir years []))
            in js_sort (\<lambda>a b. time_minus (codex_time h b) (codex_time h a)) sessions))"

section \<open>Vocabulary of the specification\<close>

text \<open>
  Modelled from the spec: the escaping of a working-directory path into a directory
  name is done by the agent CLI that writes \<open>~/.claude/projects\<close>, not by this
  repository. The specification describes it as a file-system-safe escaping that
  replaces the separator characters, which \<open>unescapePath\<close> is meant to reverse:
  every \<open>/\<close> becomes \<open>-\<close>.
\<close>

definition escapePath :: "string \<Rightarrow> string" where
  "escapePath p = map (\<lambda>c. if c = CHR ''/'' then CHR ''-'' else c) p"

text \<open>
  An entry of a daily-activity list is chronologically last when no entry of the list
  has a later date. Dates are ISO calendar dates (\<open>YYYY-MM-DD\<close>), whose
  lexicographic order is the order of the days.
\<close>

definition chronologicallyLast :: "DailyActivity list \<Rightarrow> DailyActivity \<Rightarrow> bool" where
  "chronologicallyLast acts d = (d \<in> set acts \<and> (\<forall>e\<in>set acts. da_date e \<le> da_date d))"

text \<open>
  The token total the stats cache records for a given date: the sum over the
  daily-model-token entry of that date, zero when there is no such entry.
\<close>

definition tokensForDate :: "ClaudeStats \<Rightarrow> string \<Rightarrow> int" where
  "tokensForDate stats d = sumTokens (findOpt (\<lambda>e. dmt_date e = d) (st_dailyModelTokens stats))"

text \<open>
  The recognized envelope of a session transcript's first line: an object whose
  \<open>type\<close> is the string \<open>session_meta\<close> and that has a (truthy) \<open>payload\<close>.
  \<open>firstEvent\<close> is the parsed first line of a readable file, and
  \<open>carriesSessionMeta\<close> says that the file at a path starts with such an envelope.
\<close>

definition sessionMetaEnvelope :: "jsval \<Rightarrow> bool" where
  "sessionMetaEnvelope v =
     (case v of
        JObj kvs \<Rightarrow>
          map_of kvs ''type'' = Some (JStr ''session_meta'') \<and>
          (case map_of kvs ''payload'' of None \<Rightarrow> False | Some payload \<Rightarrow> truthy payload)
      | _ \<Rightarrow> False)"

definition firstEvent :: "host \<Rightarrow> string \<Rightarrow> jsval option" where
  "firstEvent h filePath =
     (case fs h filePath of
        Some (File content sz) \<Rightarrow> JSON_parse h (hd (split_on (CHR 0x0A) content))
      | _ \<Rightarrow> None)"

definition carriesSessionMeta :: "host \<Rightarrow> string \<Rightarrow> bool" where
  "carriesSessionMeta h filePath =
     (case firstEvent h filePath of None \<Rightarrow> False | Some v \<Rightarrow> sessionMetaEnvelope v)"

text \<open>A session of the Codex scanner's result that \<open>parseSessionFile\<close> yields for its own path.\<close>

definition fromFile :: "host \<Rightarrow> CodexSession \<Rightarrow> bool" where
  "fromFile h s = (parseSessionFile h (cx_filePath s) = Some s)"

text \<open>The project list of a scan that returned, the empty list for one that threw.\<close>

definition projectList :: "error + ProjectInfo list \<Rightarrow> ProjectInfo list" where
  "projectList r = (case r of Inl e \<Rightarrow> [] | Inr ps \<Rightarrow> ps)"

section \<open>Example inputs\<close>

text \<open>
  A host with an empty file system, on 2024-02-01. Its \<open>Date\<close> knows the three
  dates the examples use.
\<close>

definition exampleDates :: "(string \<times> int) list" where
  "exampleDates =
     [(''2024-01-02'', 1704153600000), (''2024-01-03'', 1704240000000),
      (''2024-01-05'', 1704412800000)]"

definition exampleHost :: host where
  "exampleHost =
     \<lparr>fs = Map.empty, homedir = ''/home/u'', now = 1706779800000,
      JSON_parse = (\<lambda>s. None), JSON_parse_index = (\<lambda>s. None),
      JSON_parse_stats = (\<lambda>s. None), JSON_parse_history = (\<lambda>s. None),
      Date_getTime = (\<lambda>v. case v of JStr s \<Rightarrow> map_of exampleDates s | _ \<Rightarrow> None),
      toISOString = (\<lambda>t. ''2024-02-01T09:30:00.000Z''),
      toLocaleDateString = (\<lambda>t. ''2/1/2024'')\<rparr>"

text \<open>
  Two Claude projects with an index, a directory without one and a plain file; and a
  Codex tree with one day holding two session transcripts, a transcript whose first
  line is an object of type \<open>not_session_meta\<close>, and a file of another extension.
\<close>

definition exampleSession :: "string \<Rightarrow> int \<Rightarrow> string \<Rightarrow> ClaudeSession" where
  "exampleSession sid n m =
     \<lparr>cs_sessionId = sid, cs_fullPath = ''/home/u/.claude/projects/p/'' @ sid @ ''.jsonl'',
      cs_fileMtime = 0, cs_messageCount = n, cs_created = m, cs_modified = m,
      cs_gitBranch = None, cs_projectPath = ''/home/u/app''\<rparr>"

definition exampleIndexApp :: SessionsIndex where
  "exampleIndexApp =
     \<lparr>si_version = 1,
      si_entries = Some [exampleSession ''s1'' 3 ''2024-01-02'', exampleSession ''s2'' 4 ''2024-01-05''],
      si_sessions = None, si_originalPath = None\<rparr>"

definition exampleIndexWeb :: SessionsIndex where
  "exampleIndexWeb =
     \<lparr>si_version = 1, si_entries = None,
      si_sessions = Some [exampleSession ''s3'' 10 ''2024-01-03''],
      si_originalPath = Some ''/srv/web''\<rparr>"

definition quoted :: "string \<Rightarrow> string" where
  "quoted s = CHR 0x22 # s @ [CHR 0x22]"

definition notMetaLine :: string where
  "notMetaLine = ''{'' @ quoted ''type'' @ '':'' @ quoted ''not_session_meta'' @ ''}''"

definition exampleMeta :: "string \<Rightarrow> string \<Rightarrow> jsval" where
  "exampleMeta i t =
     JObj [(''type'', JStr ''session_meta''),
           (''payload'', JObj [(''id'', JStr i), (''timestamp'', JStr t),
                               (''cwd'', JStr ''/home/u/app''), (''cli_version'', JStr ''0.9'')])]"

definition exampleCodexSession :: "string \<Rightarrow> string \<Rightarrow> string \<Rightarrow> nat \<Rightarrow> CodexSession" where
  "exampleCodexSession i t p sz =
     \<lparr>cx_id = JStr i, cx_timestamp = JStr t, cx_cwd = JStr ''/home/u/app'',
      cx_model_provider = JStr ''openai'', cx_cli_version = JStr ''0.9'',
      cx_source = JStr ''cli'', cx_filePath = p, cx_fileSize = sz\<rparr>"

definition scanHost :: host where
  "scanHost =
     exampleHost
       \<lparr>fs :=
          [''/home/u/.claude/projects'' \<mapsto>
             Dir [\<lparr>d_name = ''-home-u-web'', d_isDirectory = True\<rparr>,
                  \<lparr>d_name = ''notes.txt'', d_isDirectory = False\<rparr>,
                  \<lparr>d_name = ''-home-u-app'', d_isDirectory = True\<rparr>,
                  \<lparr>d_name = ''-home-u-old'', d_isDirectory = True\<rparr>],
           ''/home/u/.claude/projects/-home-u-web/sessions-index.json'' \<mapsto> File ''index-web'' 9,
           ''/home/u/.claude/projects/-home-u-app/sessions-index.json'' \<mapsto> File ''index-app'' 9,
           ''/home/u/.codex/sessions'' \<mapsto>
             Dir [\<lparr>d_name = ''2024'', d_isDirectory = True\<rparr>,
                  \<lparr>d_name = ''README'', d_isDirectory = False\<rparr>],
           ''/home/u/.codex/sessions/2024'' \<mapsto> Dir [\<lparr>d_name = ''01'', d_isDirectory = True\<rparr>],
           ''/home/u/.codex/sessions/2024/01'' \<mapsto> Dir [\<lparr>d_name = ''05'', d_isDirectory = True\<rparr>],
           ''/home/u/.codex/sessions/2024/01/05'' \<mapsto>
             Dir [\<lparr>d_name = ''a.jsonl'', d_isDirectory = False\<rparr>,
                  \<lparr>d_name = ''b.jsonl'', d_isDirectory = False\<rparr>,
                  \<lparr>d_name = ''c.jsonl'', d_isDirectory = False\<rparr>,
                  \<lparr>d_name = ''notes.txt'', d_isDirectory = False\<rparr>],
           ''/home/u/.codex/sessions/2024/01/05/a.jsonl'' \<mapsto>
             File (''meta-a'' @ [CHR 0x0A] @ ''event'') 120,
           ''/home/u/.codex/sessions/2024/01/05/b.jsonl'' \<mapsto> File notMetaLine 29,
           ''/home/u/.codex/sessions/2024/01/05/c.jsonl'' \<mapsto> File ''meta-c'' 300,
           ''/home/u/.codex/sessions/2024/01/05/notes.txt'' \<mapsto> File ''meta-a'' 6],
        JSON_parse :=
          (\<lambda>s. if s = ''meta-a'' then Some (exampleMeta ''a'' ''2024-01-02'')
                else if s = ''meta-c'' then Some (exampleMeta ''c'' ''2024-01-05'')
                else if s = notMetaLine then Some (JObj [(''type'', JStr ''not_session_meta'')])
                else None),
        JSON_parse_index :=
          (\<lambda>s. if s = ''index-app'' then Some exampleIndexApp
                else if s = ''index-web'' then Some exampleIndexWeb else None)\<rparr>"

text \<open>A host whose stats cache parses to the given structure.\<close>

definition statsHost :: "ClaudeStats \<Rightarrow> host" where
  "statsHost st =
     exampleHost
       \<lparr>fs := [''/home/u/.claude/stats-cache.json'' \<mapsto> File ''stats'' 5],
        JSON_parse_stats := (\<lambda>s. if s = ''stats'' then Some st else None)\<rparr>"

definition exampleStats :: ClaudeStats where
  "exampleStats =
     \<lparr>st_version = 1, st_lastComputedDate = ''2024-01-05'', st_dailyActivity = None,
      st_dailyModelTokens = None, st_modelUsage = None, st_totalSessions = 0,
      st_totalMessages = 0\<rparr>"

definition activity :: "string \<Rightarrow> int \<Rightarrow> int \<Rightarrow> int \<Rightarrow> DailyActivity" where
  "activity d m s t =
     \<lparr>da_date = d, da_messageCount = Some m, da_sessionCount = Some s, da_toolCallCount = Some t\<rparr>"

text \<open>Daily entries for 2024-01-01 .. 2024-01-05, in date order.\<close>

definition orderedActivity :: "DailyActivity list" where
  "orderedActivity =
     [activity ''2024-01-01'' 10 1 2, activity ''2024-01-02'' 20 2 4,
      activity ''2024-01-03'' 30 3 6, activity ''2024-01-04'' 40 4 8,
      activity ''2024-01-05'' 50 5 9]"

text \<open>The same kind of list with the later day first, and a list whose entry has no date.\<close>

definition unorderedActivity :: "DailyActivity list" where
  "unorderedActivity = [activity ''2024-01-05'' 50 5 9, activity ''2024-01-01'' 10 1 2]"

definition undatedActivity :: "DailyActivity list" where
  "undatedActivity = [activity [] 7 1 0]"

text \<open>
  Activity on 2024-01-04 and 2024-01-05, token totals recorded for 2024-01-04 only.
\<close>

definition tokensStats :: ClaudeStats where
  "tokensStats =
     exampleStats
       \<lparr>st_dailyActivity := Some [activity ''2024-01-04'' 40 4 8, activity ''2024-01-05'' 50 5 9],
        st_dailyModelTokens :=
          Some [\<lparr>dmt_date = ''2024-01-04'',
                 dmt_tokensByModel =
                   Some [(''claude-opus-4-20250101'', Some 100),
                         (''claude-sonnet-4-20250101'', Some 20)]\<rparr>]\<rparr>"

text \<open>Two identifiers of the same model family in the cumulative usage.\<close>

definition tokenUsage :: "int \<Rightarrow> int \<Rightarrow> TokenUsage" where
  "tokenUsage i out =
     \<lparr>tu_inputTokens = Some i, tu_outputTokens = Some out,
      tu_cacheReadInputTokens = Some 0, tu_cacheCreationInputTokens = Some 0\<rparr>"

definition collisionStats :: ClaudeStats where
  "collisionStats =
     exampleStats
       \<lparr>st_modelUsage :=
          Some [(''claude-opus-4-20250101'', tokenUsage 100 10),
                (''claude-opus-4-20250215'', tokenUsage 5 1)]\<rparr>"

text \<open>A history file of four lines, the third of which is not JSON.\<close>

definition historyEntry :: "string \<Rightarrow> HistoryEntry" where
  "historyEntry d = \<lparr>he_display = d, he_timestamp = 0, he_project = None, he_sessionId = None\<rparr>"

definition historyHost :: host where
  "historyHost =
     exampleHost
       \<lparr>fs := [''/home/u/.claude/history.jsonl'' \<mapsto>
                 File (''h1'' @ [CHR 0x0A] @ ''h2'' @ [CHR 0x0A] @ ''bad'' @ [CHR 0x0A] @ ''h3''
                       @ [CHR 0x0A]) 13],
        JSON_parse_history := (\<lambda>s. if s = ''bad'' then None else Some (historyEntry s))\<rparr>"

text \<open>
  A Claude project whose second session has a modified string that is not a date,
  and a Codex day whose second transcript has a payload without a timestamp.
\<close>

definition garbledIndex :: SessionsIndex where
  "garbledIndex =
     \<lparr>si_version = 1,
      si_entries =
        Some [exampleSession ''s1'' 3 ''2024-01-02'', exampleSession ''s2'' 1 ''garbage'',
              exampleSession ''s3'' 4 ''2024-01-05''],
      si_sessions = None, si_originalPath = None\<rparr>"

definition undatedMeta :: jsval where
  "undatedMeta =
     JObj [(''type'', JStr ''session_meta''),
           (''payload'', JObj [(''id'', JStr ''u''), (''cwd'', JStr ''/home/u/app''),
                               (''cli_version'', JStr ''0.9'')])]"

definition undatedCodexSession :: CodexSession where
  "undatedCodexSession =
     \<lparr>cx_id = JStr ''u'', cx_timestamp = JUndefined, cx_cwd = JStr ''/home/u/app'',
      cx_model_provider = JStr ''openai'', cx_cli_version = JStr ''0.9'',
      cx_source = JStr ''cli'', cx_filePath = ''/home/u/.codex/sessions/2024/01/05/b.jsonl'',
      cx_fileSize = 80\<rparr>"

definition garbledHost :: host where
  "garbledHost =
     exampleHost
       \<lparr>fs :=
          [''/home/u/.claude/projects'' \<mapsto> Dir [\<lparr>d_name = ''-home-u-app'', d_isDirectory = True\<rparr>],
           ''/home/u/.claude/projects/-home-u-app/sessions-index.json'' \<mapsto> File ''index-app'' 9,
           ''/home/u/.codex/sessions'' \<mapsto> Dir [\<lparr>d_name = ''2024'', d_isDirectory = True\<rparr>],
           ''/home/u/.codex/sessions/2024'' \<mapsto> Dir [\<lparr>d_name = ''01'', d_isDirectory = True\<rparr>],
           ''/home/u/.codex/sessions/2024/01'' \<mapsto> Dir [\<lparr>d_name = ''05'', d_isDirectory = True\<rparr>],
           ''/home/u/.codex/sessions/2024/01/05'' \<mapsto>
             Dir [\<lparr>d_name = ''a.jsonl'', d_isDirectory = False\<rparr>,
                  \<lparr>d_name = ''b.jsonl'', d_isDirectory = False\<rparr>,
                  \<lparr>d_name = ''c.jsonl'', d_isDirectory = False\<rparr>],
           ''/home/u/.codex/sessions/2024/01/05/a.jsonl'' \<mapsto> File ''meta-a'' 120,
           ''/home/u/.codex/sessions/2024/01/05/b.jsonl'' \<mapsto> File ''meta-u'' 80,
           ''/home/u/.codex/sessions/2024/01/05/c.jsonl'' \<mapsto> File ''meta-c'' 300],
        JSON_parse :=
          (\<lambda>s. if s = ''meta-a'' then Some (exampleMeta ''a'' ''2024-01-02'')
                else if s = ''meta-c'' then Some (exampleMeta ''c'' ''2024-01-05'')
                else if s = ''meta-u'' then Some undatedMeta
                else None),
        JSON_parse_index := (\<lambda>s. if s = ''index-app'' then Some garbledIndex else None)\<rparr>"

section \<open>Auxiliary facts\<close>

subsection \<open>Sorting\<close>

lemma set_insort_cmp: "set (insort_cmp cmp x ys) = insert x (set ys)"
  by (induction ys) auto

lemma set_js_sort: "set (js_sort cmp xs) = set xs"
  by (induction xs) (simp_all add: js_sort_def set_insort_cmp)

lemma sum_insort_cmp: "sum_list (map f (insort_cmp cmp x ys)) = (f x :: int) + sum_list (map f ys)"
  by (induction ys) auto

lemma sum_js_sort: "sum_list (map f (js_sort cmp xs)) = sum_list (map (f :: 'a \<Rightarrow> int) xs)"
  by (induction xs) (simp_all add: js_sort_def sum_insort_cmp)

lemma fold_add: "fold (\<lambda>s sum. sum + f s) xs a = (a :: int) + sum_list (map f xs)"
  by (induction xs arbitrary: a) simp_all

lemma sorted_wrt_insort_cmp:
  assumes gt: "\<And>a b. a \<in> A \<Longrightarrow> b \<in> A \<Longrightarrow> \<not> cmp a b \<le> 0 \<Longrightarrow> R b a"
    and le: "\<And>a b. a \<in> A \<Longrightarrow> b \<in> A \<Longrightarrow> cmp a b \<le> 0 \<Longrightarrow> R a b"
    and trans: "\<And>a b c. a \<in> A \<Longrightarrow> b \<in> A \<Longrightarrow> c \<in> A \<Longrightarrow> R a b \<Longrightarrow> R b c \<Longrightarrow> R a c"
  shows "x \<in> A \<Longrightarrow> set ys \<subseteq> A \<Longrightarrow> sorted_wrt R ys \<Longrightarrow> sorted_wrt R (insort_cmp cmp x ys)"
proof (induction ys)
  case Nil
  then show ?case by simp
next
  case (Cons y ys)
  show ?case
  proof (cases "cmp x y \<le> 0")
    case True
    have xy: "R x y" using le True Cons.prems by simp
    have "\<forall>z\<in>set ys. R x z"
    proof
      fix z assume z: "z \<in> set ys"
      then have "R y z" using Cons.prems(3) by simp
      then show "R x z" using trans[of x y z] xy z Cons.prems by auto
    qed
    then show ?thesis using True xy Cons.prems by simp
  next
    case False
    have yx: "R y x" using gt False Cons.prems by simp
    have "sorted_wrt R (insort_cmp cmp x ys)" using Cons by simp
    moreover have "\<forall>z\<in>set (insort_cmp cmp x ys). R y z"
      using yx Cons.prems(3) by (simp add: set_insort_cmp)
    ultimately show ?thesis using False by simp
  qed
qed

lemma sorted_wrt_js_sort:
  assumes gt: "\<And>a b. a \<in> A \<Longrightarrow> b \<in> A \<Longrightarrow> \<not> cmp a b \<le> 0 \<Longrightarrow> R b a"
    and le: "\<And>a b. a \<in> A \<Longrightarrow> b \<in> A \<Longrightarrow> cmp a b \<le> 0 \<Longrightarrow> R a b"
    and trans: "\<And>a b c. a \<in> A \<Longrightarrow> b \<in> A \<Longrightarrow> c \<in> A \<Longrightarrow> R a b \<Longrightarrow> R b c \<Longrightarrow> R a c"
  shows "set xs \<subseteq> A \<Longrightarrow> sorted_wrt R (js_sort cmp xs)"
proof (induction xs)
  case Nil
  then show ?case by (simp add: js_sort_def)
next
  case (Cons x xs)
  have "sorted_wrt R (insort_cmp cmp x (js_sort cmp xs))"
    by (rule sorted_wrt_insort_cmp[where A = A, OF gt le trans])
       (use Cons in \<open>auto simp: set_js_sort\<close>)
  then show ?case by (simp add: js_sort_def)
qed

lemma sorted_by_time:
  assumes "\<forall>s\<in>set xs. T s \<noteq> None"
  shows "sorted_wrt (\<lambda>a b. time_ge (T a) (T b)) (js_sort (\<lambda>a b. time_minus (T b) (T a)) xs)"
proof (rule sorted_wrt_js_sort[where A = "{s. T s \<noteq> None}"])
  show "set xs \<subseteq> {s. T s \<noteq> None}" using assms by auto
qed auto

lemma sorted_by_int:
  "sorted_wrt (\<lambda>a b. (k b :: int) \<le> k a) (js_sort (\<lambda>a b. k b - k a) xs)"
  by (rule sorted_wrt_js_sort[where A = UNIV]) auto

subsection \<open>The Codex walk\<close>

lemma getProp_type_session_meta:
  "getProp v ''type'' = Inr (JStr ''session_meta'') \<Longrightarrow>
     \<exists>kvs. v = JObj kvs \<and> map_of kvs ''type'' = Some (JStr ''session_meta'')"
  by (cases v) (auto split: option.splits)

lemma parseSessionFile_Some:
  assumes "parseSessionFile h p = Some s"
  shows "cx_filePath s = p \<and> carriesSessionMeta h p"
proof -
  from assms obtain content sz where f: "fs h p = Some (File content sz)"
    by (auto simp: parseSessionFile_def readFileSync_def split: option.splits node.splits)
  from assms f obtain v where v: "JSON_parse h (hd (split_on (CHR 0x0A) content)) = Some v"
    by (auto simp: parseSessionFile_def readFileSync_def split: option.splits)
  from assms f v have ty: "getProp v ''type'' = Inr (JStr ''session_meta'')"
    by (auto simp: parseSessionFile_def readFileSync_def split: sum.splits if_splits)
  then obtain kvs where kvs: "v = JObj kvs" "map_of kvs ''type'' = Some (JStr ''session_meta'')"
    using getProp_type_session_meta by blast
  from assms f v ty kvs have "(case map_of kvs ''payload'' of None \<Rightarrow> False | Some payload \<Rightarrow> truthy payload)"
    by (auto simp: parseSessionFile_def readFileSync_def split: sum.splits if_splits option.splits)
  moreover from assms f v ty have "cx_filePath s = p"
    by (auto simp: parseSessionFile_def readFileSync_def split: sum.splits if_splits)
  ultimately show ?thesis
    using f v kvs by (simp add: carriesSessionMeta_def firstEvent_def sessionMetaEnvelope_def)
qed

lemma parse_fromFile: "parseSessionFile h p = Some s \<Longrightarrow> fromFile h s"
  using parseSessionFile_Some[of h p s] by (simp add: fromFile_def)

lemma walkFiles_fromFile:
  "\<forall>s\<in>set acc. fromFile h s \<Longrightarrow> \<forall>s\<in>set (walkFiles h dp files acc). fromFile h s"
proof (induction files arbitrary: acc)
  case Nil
  then show ?case by simp
next
  case (Cons f files)
  show ?case
  proof (cases "endsWith f ''.jsonl''")
    case False
    then show ?thesis using Cons by simp
  next
    case True
    show ?thesis
    proof (cases "parseSessionFile h (path_join dp f)")
      case None
      then show ?thesis using True Cons by simp
    next
      case (Some x)
      have a: "\<forall>s\<in>set (acc @ [x]). fromFile h s"
        using Cons.prems parse_fromFile[OF Some] by simp
      have "\<forall>s\<in>set (walkFiles h dp files (acc @ [x])). fromFile h s"
        by (rule Cons.IH[OF a])
      then show ?thesis using True Some by simp
    qed
  qed
qed

lemma walkFiles_skips:
  "parseSessionFile h (path_join dp f) = None \<Longrightarrow>
     walkFiles h dp (before @ f # after) acc = walkFiles h dp (before @ after) acc"
  by (induction before arbitrary: acc) (auto split: option.splits)

lemma walkDays_fromFile:
  "\<forall>s\<in>set acc. fromFile h s \<Longrightarrow> \<forall>s\<in>set (fst (walkDays h mp days acc)). fromFile h s"
proof (induction days arbitrary: acc)
  case Nil
  then show ?case by simp
next
  case (Cons d ds)
  show ?case
  proof (cases "d_isDirectory d")
    case False
    then show ?thesis using Cons by simp
  next
    case True
    show ?thesis
    proof (cases "readdirSync (fs h) (path_join mp (d_name d))")
      case (Inl e)
      then show ?thesis using True Cons.prems by simp
    next
      case (Inr files)
      have "\<forall>s\<in>set (walkFiles h (path_join mp (d_name d)) (map d_name files) acc). fromFile h s"
        using Cons.prems by (rule walkFiles_fromFile)
      then show ?thesis using True Inr Cons.IH by simp
    qed
  qed
qed

lemma walkMonths_fromFile:
  "\<forall>s\<in>set acc. fromFile h s \<Longrightarrow> \<forall>s\<in>set (fst (walkMonths h yp months acc)). fromFile h s"
proof (induction months arbitrary: acc)
  case Nil
  then show ?case by simp
next
  case (Cons m ms)
  show ?case
  proof (cases "d_isDirectory m")
    case False
    then show ?thesis using Cons by simp
  next
    case True
    show ?thesis
    proof (cases "readdirSync (fs h) (path_join yp (d_name m))")
      case (Inl e)
      then show ?thesis using True Cons.prems by simp
    next
      case (Inr days)
      obtain acc' threw where w: "walkDays h (path_join yp (d_name m)) days acc = (acc', threw)"
        by (cases "walkDays h (path_join yp (d_name m)) days acc")
      have acc': "\<forall>s\<in>set acc'. fromFile h s"
        using walkDays_fromFile[OF Cons.prems, of "path_join yp (d_name m)" days] w by simp
      show ?thesis
      proof (cases threw)
        case True
        then show ?thesis using \<open>d_isDirectory m\<close> Inr w acc' by simp
      next
        case False
        then show ?thesis using \<open>d_isDirectory m\<close> Inr w Cons.IH[OF acc'] by simp
      qed
    qed
  qed
qed

lemma walkYears_fromFile:
  "\<forall>s\<in>set acc. fromFile h s \<Longrightarrow> \<forall>s\<in>set (fst (walkYears h sd years acc)). fromFile h s"
proof (induction years arbitrary: acc)
  case Nil
  then show ?case by simp
next
  case (Cons y ys)
  show ?case
  proof (cases "d_isDirectory y")
    case False
    then show ?thesis using Cons by simp
  next
    case True
    show ?thesis
    proof (cases "readdirSync (fs h) (path_join sd (d_name y))")
      case (Inl e)
      then show ?thesis using True Cons.prems by simp
    next
      case (Inr months)
      obtain acc' threw where w: "walkMonths h (path_join sd (d_name y)) months acc = (acc', threw)"
        by (cases "walkMonths h (path_join sd (d_name y)) months acc")
      have acc': "\<forall>s\<in>set acc'. fromFile h s"
        using walkMonths_fromFile[OF Cons.prems, of "path_join sd (d_name y)" months] w by simp
      show ?thesis
      proof (cases threw)
        case True
        then show ?thesis using \<open>d_isDirectory y\<close> Inr w acc' by simp
      next
        case False
        then show ?thesis using \<open>d_isDirectory y\<close> Inr w Cons.IH[OF acc'] by simp
      qed
    qed
  qed
qed

lemma getSessions_fromFile: "s \<in> set (getSessions h) \<Longrightarrow> fromFile h s"
proof -
  assume s: "s \<in> set (getSessions h)"
  have e: "\<forall>s\<in>set ([] :: CodexSession list). fromFile h s" by simp
  show ?thesis
    using s walkYears_fromFile[OF e, of "path_join (codexDir h) ''sessions''"]
    by (auto simp: getSessions_def Let_def set_js_sort split: if_splits sum.splits)
qed


subsection \<open>The project scan and the history tail\<close>

lemma set_map_filter: "set (List.map_filter f xs) = {y. \<exists>x\<in>set xs. f x = Some y}"
  by (induction xs) (auto split: option.splits)

lemma getProjects_mem:
  assumes "getProjects h = Inr ps" "p \<in> set ps"
  shows "\<exists>entry. scanProjectEntry h (path_join (claudeDir h) ''projects'') entry = Some p"
  using assms
  by (auto simp: getProjects_def Let_def set_js_sort set_map_filter split: if_splits sum.splits)

lemma scanProjectEntry_total:
  assumes "scanProjectEntry h d e = Some p"
  shows "pi_totalMessages p = sum_list (map cs_messageCount (pi_sessions p))"
  using assms
  by (auto simp: scanProjectEntry_def Let_def fold_add sum_js_sort
           split: if_splits sum.splits option.splits)

lemma scanProjectEntry_sorted:
  assumes "scanProjectEntry h d e = Some p" "\<forall>s\<in>set (pi_sessions p). session_time h s \<noteq> None"
  shows "sorted_wrt (\<lambda>a b. time_ge (session_time h a) (session_time h b)) (pi_sessions p)"
proof -
  from assms(1) obtain xs where
    p: "pi_sessions p = js_sort (\<lambda>a b. time_minus (session_time h b) (session_time h a)) xs"
    by (auto simp: scanProjectEntry_def Let_def split: if_splits sum.splits option.splits)
  have "\<forall>s\<in>set xs. session_time h s \<noteq> None"
    using assms(2) p by (simp add: set_js_sort)
  then show ?thesis unfolding p by (rule sorted_by_time)
qed

lemma getProjects_sorted:
  assumes "getProjects h = Inr ps"
  shows "sorted_wrt (\<lambda>a b. pi_lastModified b \<le> pi_lastModified a) ps"
  using assms sorted_by_int[of pi_lastModified]
  by (auto simp: getProjects_def Let_def split: if_splits sum.splits)

lemma getSessions_sorted:
  assumes "\<forall>s\<in>set (getSessions h). codex_time h s \<noteq> None"
  shows "sorted_wrt (\<lambda>a b. time_ge (codex_time h a) (codex_time h b)) (getSessions h)"
proof (cases "existsSync (fs h) (path_join (codexDir h) ''sessions'')")
  case False
  then show ?thesis by (simp add: getSessions_def)
next
  case True
  then obtain xs where
    g: "getSessions h = js_sort (\<lambda>a b. time_minus (codex_time h b) (codex_time h a)) xs"
    by (simp add: getSessions_def Let_def)
  have "\<forall>s\<in>set xs. codex_time h s \<noteq> None"
    using assms g by (simp add: set_js_sort)
  then show ?thesis unfolding g by (rule sorted_by_time)
qed

lemma length_map_filter_le: "length (List.map_filter f xs) \<le> length xs"
  by (induction xs) (auto split: option.splits)

lemma js_slice_neg: "0 < limit \<Longrightarrow> js_slice (- limit) xs = drop (length xs - nat limit) xs"
  by (auto simp: js_slice_def Let_def max_def intro: arg_cong[where f = "\<lambda>k. drop k xs"])


lemma sorted_le_last: "sorted xs \<Longrightarrow> x \<in> set xs \<Longrightarrow> x \<le> last (xs :: string list)"
  by (induction xs) (auto simp: last_in_set)

subsection \<open>What the providers do beside the claims\<close>

text \<open>
  The loop of \<open>getModelUsage\<close> leaves, under each short name, the counts of the last
  identifier with that short name.
\<close>

lemma fold_last_write:
  "fold (\<lambda>(m, u) r. r(f m \<mapsto> g u)) xs r0 k =
     (case find (\<lambda>(m, u). f m = k) (rev xs) of
        None \<Rightarrow> r0 k
      | Some (m, u) \<Rightarrow> Some (g u))"
  by (induction xs arbitrary: r0 rule: rev_induct) (auto split: option.splits)

text \<open>
  When the daily-activity list has an entry for today, the token total of the snapshot
  is the one recorded for today: this branch looks the token entry up by date.
\<close>

lemma getTodayStats_tokens_today:
  assumes "getStats h = Some stats" "st_dailyActivity stats = Some acts"
    and "find (\<lambda>d. da_date d = today h) acts = Some a"
  shows "sn_date (getTodayStats h) = today h \<and>
         sn_totalTokens (getTodayStats h) = tokensForDate stats (today h)"
proof -
  have "acts \<noteq> []" using assms(3) by auto
  then show ?thesis using assms by (simp add: getTodayStats_def tokensForDate_def)
qed

text \<open>A root that exists but is not a directory makes \<open>getProjects\<close> throw.\<close>

lemma getProjects_root_not_directory:
  "fs h (path_join (claudeDir h) ''projects'') = Some (File content sz) \<Longrightarrow>
     getProjects h = Inl IOError"
  by (simp add: getProjects_def existsSync_def readdirSync_def)

subsection \<open>The example inputs, evaluated\<close>

lemma today_exampleHost: "today exampleHost = ''2024-02-01''"
  by (simp add: today_def exampleHost_def)

lemma today_statsHost: "today (statsHost st) = ''2024-02-01''"
  by (simp add: today_def statsHost_def exampleHost_def)

lemma getStats_exampleHost: "getStats exampleHost = None"
  by (simp add: getStats_def existsSync_def exampleHost_def)

lemma getStats_statsHost: "getStats (statsHost st) = Some st"
  by (simp add: getStats_def claudeDir_def path_join_def existsSync_def readFileSync_def
      statsHost_def exampleHost_def)

lemma getProjects_scanHost:
  "getProjects scanHost =
     Inr [\<lparr>pi_name = ''app'', pi_path = ''/home/u/app'', pi_escapedPath = ''-home-u-app'',
            pi_sessions = [exampleSession ''s2'' 4 ''2024-01-05'', exampleSession ''s1'' 3 ''2024-01-02''],
            pi_totalMessages = 7, pi_lastModified = 1704412800000\<rparr>,
          \<lparr>pi_name = ''web'', pi_path = ''/srv/web'', pi_escapedPath = ''-home-u-web'',
            pi_sessions = [exampleSession ''s3'' 10 ''2024-01-03''],
            pi_totalMessages = 10, pi_lastModified = 1704240000000\<rparr>]"
  by (simp add: getProjects_def claudeDir_def readdirSync_def
      scanProjectEntry_def session_time_def js_sort_def path_join_def existsSync_def
      readFileSync_def exampleIndexApp_def exampleIndexWeb_def unescapePath_def basename_def Let_def
      scanHost_def exampleHost_def exampleSession_def exampleDates_def)

lemma session_time_scanHost:
  "session_time scanHost (exampleSession a n ''2024-01-02'') = Some 1704153600000"
  "session_time scanHost (exampleSession a n ''2024-01-03'') = Some 1704240000000"
  "session_time scanHost (exampleSession a n ''2024-01-05'') = Some 1704412800000"
  by (simp_all add: session_time_def scanHost_def exampleHost_def exampleSession_def exampleDates_def)

lemma parseSessionFile_scanHost:
  "parseSessionFile scanHost ''/home/u/.codex/sessions/2024/01/05/a.jsonl'' =
     Some (exampleCodexSession ''a'' ''2024-01-02'' ''/home/u/.codex/sessions/2024/01/05/a.jsonl'' 120)"
  "parseSessionFile scanHost ''/home/u/.codex/sessions/2024/01/05/b.jsonl'' = None"
  "parseSessionFile scanHost ''/home/u/.codex/sessions/2024/01/05/c.jsonl'' =
     Some (exampleCodexSession ''c'' ''2024-01-05'' ''/home/u/.codex/sessions/2024/01/05/c.jsonl'' 300)"
  by (simp_all add: parseSessionFile_def readFileSync_def statSync_size_def payloadProp_def
      js_or_def exampleMeta_def exampleCodexSession_def notMetaLine_def quoted_def
      scanHost_def exampleHost_def)

lemma codex_time_scanHost:
  "codex_time scanHost (exampleCodexSession i ''2024-01-02'' p sz) = Some 1704153600000"
  "codex_time scanHost (exampleCodexSession i ''2024-01-05'' p sz) = Some 1704412800000"
  by (simp_all add: codex_time_def scanHost_def exampleHost_def exampleCodexSession_def
      exampleDates_def)

lemma scanHost_dirs:
  "fs scanHost ''/home/u/.codex/sessions'' =
     Some (Dir [\<lparr>d_name = ''2024'', d_isDirectory = True\<rparr>,
                \<lparr>d_name = ''README'', d_isDirectory = False\<rparr>])"
  "fs scanHost ''/home/u/.codex/sessions/2024'' = Some (Dir [\<lparr>d_name = ''01'', d_isDirectory = True\<rparr>])"
  "fs scanHost ''/home/u/.codex/sessions/2024/01'' = Some (Dir [\<lparr>d_name = ''05'', d_isDirectory = True\<rparr>])"
  "fs scanHost ''/home/u/.codex/sessions/2024/01/05'' =
     Some (Dir [\<lparr>d_name = ''a.jsonl'', d_isDirectory = False\<rparr>,
                \<lparr>d_name = ''b.jsonl'', d_isDirectory = False\<rparr>,
                \<lparr>d_name = ''c.jsonl'', d_isDirectory = False\<rparr>,
                \<lparr>d_name = ''notes.txt'', d_isDirectory = False\<rparr>])"
  "homedir scanHost = ''/home/u''"
  by (simp_all add: scanHost_def exampleHost_def)

lemma getSessions_scanHost:
  "getSessions scanHost =
     [exampleCodexSession ''c'' ''2024-01-05'' ''/home/u/.codex/sessions/2024/01/05/c.jsonl'' 300,
      exampleCodexSession ''a'' ''2024-01-02'' ''/home/u/.codex/sessions/2024/01/05/a.jsonl'' 120]"
  by (simp add: getSessions_def codexDir_def path_join_def existsSync_def readdirSync_def
      scanHost_dirs endsWith_def parseSessionFile_scanHost codex_time_scanHost js_sort_def Let_def)

lemma getRecentHistory_historyHost:
  "getRecentHistory historyHost 2 = [historyEntry ''h3'']"
  "getRecentHistory historyHost 0 = [historyEntry ''h3'', historyEntry ''h2'', historyEntry ''h1'']"
  by (simp_all add: getRecentHistory_def claudeDir_def path_join_def existsSync_def
      readFileSync_def nonEmptyLines_def trim_def isWhiteSpace_def js_slice_def Let_def
      historyHost_def exampleHost_def)

lemma session_time_garbledHost:
  "session_time garbledHost (exampleSession a n ''2024-01-02'') = Some 1704153600000"
  "session_time garbledHost (exampleSession a n ''garbage'') = None"
  "session_time garbledHost (exampleSession a n ''2024-01-05'') = Some 1704412800000"
  by (simp_all add: session_time_def garbledHost_def exampleHost_def exampleSession_def
      exampleDates_def)

lemma getProjects_garbledHost:
  "getProjects garbledHost =
     Inr [\<lparr>pi_name = ''app'', pi_path = ''/home/u/app'', pi_escapedPath = ''-home-u-app'',
            pi_sessions =
              [exampleSession ''s1'' 3 ''2024-01-02'', exampleSession ''s2'' 1 ''garbage'',
               exampleSession ''s3'' 4 ''2024-01-05''],
            pi_totalMessages = 8, pi_lastModified = 1704412800000\<rparr>]"
  by (simp add: getProjects_def claudeDir_def readdirSync_def
      scanProjectEntry_def session_time_def js_sort_def path_join_def existsSync_def
      readFileSync_def garbledIndex_def unescapePath_def basename_def Let_def
      garbledHost_def exampleHost_def exampleSession_def exampleDates_def)

lemma parseSessionFile_garbledHost:
  "parseSessionFile garbledHost ''/home/u/.codex/sessions/2024/01/05/a.jsonl'' =
     Some (exampleCodexSession ''a'' ''2024-01-02'' ''/home/u/.codex/sessions/2024/01/05/a.jsonl'' 120)"
  "parseSessionFile garbledHost ''/home/u/.codex/sessions/2024/01/05/b.jsonl'' =
     Some undatedCodexSession"
  "parseSessionFile garbledHost ''/home/u/.codex/sessions/2024/01/05/c.jsonl'' =
     Some (exampleCodexSession ''c'' ''2024-01-05'' ''/home/u/.codex/sessions/2024/01/05/c.jsonl'' 300)"
  by (simp_all add: parseSessionFile_def readFileSync_def statSync_size_def payloadProp_def
      js_or_def exampleMeta_def undatedMeta_def exampleCodexSession_def undatedCodexSession_def
      garbledHost_def exampleHost_def)

lemma codex_time_garbledHost:
  "codex_time garbledHost (exampleCodexSession i ''2024-01-02'' p sz) = Some 1704153600000"
  "codex_time garbledHost (exampleCodexSession i ''2024-01-05'' p sz) = Some 1704412800000"
  "codex_time garbledHost undatedCodexSession = None"
  by (simp_all add: codex_time_def garbledHost_def exampleHost_def exampleCodexSession_def
      undatedCodexSession_def exampleDates_def)

lemma garbledHost_dirs:
  "fs garbledHost ''/home/u/.codex/sessions'' = Some (Dir [\<lparr>d_name = ''2024'', d_isDirectory = True\<rparr>])"
  "fs garbledHost ''/home/u/.codex/sessions/2024'' = Some (Dir [\<lparr>d_name = ''01'', d_isDirectory = True\<rparr>])"
  "fs garbledHost ''/home/u/.codex/sessions/2024/01'' = Some (Dir [\<lparr>d_name = ''05'', d_isDirectory = True\<rparr>])"
  "fs garbledHost ''/home/u/.codex/sessions/2024/01/05'' =
     Some (Dir [\<lparr>d_name = ''a.jsonl'', d_isDirectory = False\<rparr>,
                \<lparr>d_name = ''b.jsonl'', d_isDirectory = False\<rparr>,
                \<lparr>d_name = ''c.jsonl'', d_isDirectory = False\<rparr>])"
  "homedir garbledHost = ''/home/u''"
  by (simp_all add: garbledHost_def exampleHost_def)

lemma getSessions_garbledHost:
  "getSessions garbledHost =
     [exampleCodexSession ''a'' ''2024-01-02'' ''/home/u/.codex/sessions/2024/01/05/a.jsonl'' 120,
      undatedCodexSession,
      exampleCodexSession ''c'' ''2024-01-05'' ''/home/u/.codex/sessions/2024/01/05/c.jsonl'' 300]"
  by (simp add: getSessions_def codexDir_def path_join_def existsSync_def readdirSync_def
      garbledHost_dirs endsWith_def parseSessionFile_garbledHost codex_time_garbledHost
      js_sort_def Let_def)

text \<open>
  A list of two or more elements one of which has the time value \<open>NaN\<close> is not
  non-increasing, in whatever order its elements stand.
\<close>

lemma nan_key_not_sorted:
  assumes "x \<in> set xs" "T x = None" "2 \<le> length xs"
  shows "\<not> sorted_wrt (\<lambda>a b. time_ge (T a) (T b)) xs"
proof
  assume srt: "sorted_wrt (\<lambda>a b. time_ge (T a) (T b)) xs"
  from assms(1) obtain i where i: "i < length xs" "xs ! i = x"
    by (auto simp: in_set_conv_nth)
  have l: "0 < length xs" "1 < length xs" using assms(3) by linarith+
  obtain j where j: "j < length xs" "j \<noteq> i"
  proof (cases "i = 0")
    case True
    then have "(1::nat) \<noteq> i" by simp
    then show ?thesis using l(2) that[of 1] by blast
  next
    case False
    then have "0 \<noteq> i" by simp
    then show ?thesis using l(1) that[of 0] by blast
  qed
  have "time_ge (T (xs ! i)) (T (xs ! j)) \<or> time_ge (T (xs ! j)) (T (xs ! i))"
  proof (cases "i < j")
    case True
    have "time_ge (T (xs ! i)) (T (xs ! j))"
      by (rule sorted_wrt_nth_less[OF srt True j(1)])
    then show ?thesis by simp
  next
    case False
    then have ji: "j < i" using j by simp
    have "time_ge (T (xs ! j)) (T (xs ! i))"
      by (rule sorted_wrt_nth_less[OF srt ji i(1)])
    then show ?thesis by simp
  qed
  then show False using i assms(2) by (cases "T (xs ! j)") simp_all
qed

section \<open>The claims\<close>

subsection \<open>Model usage\<close>

text \<open>
  C1. The claim: when two or more raw model identifiers canonicalize to the same short
  name, \<open>getModelUsage\<close> returns one entry for that name holding the sums of their
  input and output counts. The code assigns \<open>result[shortName]\<close> anew for every
  identifier, so the entry holds the counts of the identifier processed last: for
  \<open>claude-opus-4-20250101\<close> (100 in, 10 out) followed by \<open>claude-opus-4-20250215\<close>
  (5 in, 1 out), both of which canonicalize to \<open>Opus\<close>, the only entry of the result is
  \<open>Opus\<close> with 5 in and 1 out, where the sums are 105 and 11.
\<close>

theorem getModelUsage_collision_last_write_wins:
  "getShortModelName ''claude-opus-4-20250101'' = ''Opus'' \<and>
   getShortModelName ''claude-opus-4-20250215'' = ''Opus'' \<and>
   getModelUsage (statsHost collisionStats) = [''Opus'' \<mapsto> \<lparr>u_input = 5, u_output = 1\<rparr>]"
  by (simp add: getModelUsage_def getStats_statsHost getShortModelName_def collisionStats_def
      exampleStats_def tokenUsage_def)

subsection \<open>Today's snapshot\<close>

text \<open>
  C2, as amended. For an absent stats structure, or one whose daily-activity list is
  absent or empty, \<open>getTodayStats\<close> returns the all-zero snapshot labelled with today's
  date. For a non-empty daily-activity list in ascending date order with no entry for
  today, it returns the message, session and tool-call counts of the chronologically
  last entry of the list (the one at its end), labelled with that entry's date, or
  with today's date when that entry's date is the empty string.
\<close>

theorem getTodayStats_fallback_last_entry:
  "((getStats h = None \<or>
     (\<exists>stats. getStats h = Some stats \<and>
        (st_dailyActivity stats = None \<or> st_dailyActivity stats = Some []))) \<longrightarrow>
      getTodayStats h =
        \<lparr>sn_messages = 0, sn_sessions = 0, sn_toolCalls = 0, sn_totalTokens = 0,
          sn_date = today h\<rparr>) \<and>
   (\<forall>stats acts.
      getStats h = Some stats \<and> st_dailyActivity stats = Some acts \<and> acts \<noteq> [] \<and>
      (\<forall>d\<in>set acts. da_date d \<noteq> today h) \<and> sorted (map da_date acts) \<longrightarrow>
        chronologicallyLast acts (last acts) \<and>
        sn_messages (getTodayStats h) = or0 (da_messageCount (last acts)) \<and>
        sn_sessions (getTodayStats h) = or0 (da_sessionCount (last acts)) \<and>
        sn_toolCalls (getTodayStats h) = or0 (da_toolCallCount (last acts)) \<and>
        sn_date (getTodayStats h) =
          (if da_date (last acts) = [] then today h else da_date (last acts)))"
proof (intro conjI allI impI)
  assume "getStats h = None \<or>
     (\<exists>stats. getStats h = Some stats \<and>
        (st_dailyActivity stats = None \<or> st_dailyActivity stats = Some []))"
  then show "getTodayStats h =
        \<lparr>sn_messages = 0, sn_sessions = 0, sn_toolCalls = 0, sn_totalTokens = 0,
          sn_date = today h\<rparr>"
    by (auto simp: getTodayStats_def)
next
  fix stats acts
  assume a: "getStats h = Some stats \<and> st_dailyActivity stats = Some acts \<and> acts \<noteq> [] \<and>
      (\<forall>d\<in>set acts. da_date d \<noteq> today h) \<and> sorted (map da_date acts)"
  then have nf: "find (\<lambda>d. da_date d = today h) acts = None"
    by (simp add: find_None_iff)
  from a have s: "sorted (map da_date acts)" by simp
  show "chronologicallyLast acts (last acts)"
    unfolding chronologicallyLast_def
  proof (intro conjI ballI)
    show "last acts \<in> set acts" using a by simp
    fix e assume "e \<in> set acts"
    then have "da_date e \<in> set (map da_date acts)" by simp
    then have "da_date e \<le> last (map da_date acts)" by (rule sorted_le_last[OF s])
    then show "da_date e \<le> da_date (last acts)" using a by (simp add: last_map)
  qed
  show "sn_messages (getTodayStats h) = or0 (da_messageCount (last acts))"
    using a nf by (simp add: getTodayStats_def)
  show "sn_sessions (getTodayStats h) = or0 (da_sessionCount (last acts))"
    using a nf by (simp add: getTodayStats_def)
  show "sn_toolCalls (getTodayStats h) = or0 (da_toolCallCount (last acts))"
    using a nf by (simp add: getTodayStats_def)
  show "sn_date (getTodayStats h) =
          (if da_date (last acts) = [] then today h else da_date (last acts))"
    using a nf by (simp add: getTodayStats_def)
qed

text \<open>
  The theorem at the scenario of the specification: daily entries for 2024-01-01 to
  2024-01-05 and none for today (2024-02-01) give the counts and the date of
  2024-01-05; a host without a stats cache gives the all-zero snapshot of today.
\<close>

theorem getTodayStats_fallback_last_entry_witness:
  "getTodayStats exampleHost =
     \<lparr>sn_messages = 0, sn_sessions = 0, sn_toolCalls = 0, sn_totalTokens = 0,
       sn_date = ''2024-02-01''\<rparr> \<and>
   getTodayStats (statsHost (exampleStats\<lparr>st_dailyActivity := Some orderedActivity\<rparr>)) =
     \<lparr>sn_messages = 50, sn_sessions = 5, sn_toolCalls = 9, sn_totalTokens = 0,
       sn_date = ''2024-01-05''\<rparr> \<and>
   chronologicallyLast orderedActivity (activity ''2024-01-05'' 50 5 9)"
proof -
  let ?st = "exampleStats\<lparr>st_dailyActivity := Some orderedActivity\<rparr>"
  have z: "getTodayStats exampleHost =
     \<lparr>sn_messages = 0, sn_sessions = 0, sn_toolCalls = 0, sn_totalTokens = 0,
       sn_date = ''2024-02-01''\<rparr>"
    using getTodayStats_fallback_last_entry[of exampleHost]
    by (simp add: getStats_exampleHost today_exampleHost)
  have hyp: "getStats (statsHost ?st) = Some ?st \<and> st_dailyActivity ?st = Some orderedActivity \<and>
      orderedActivity \<noteq> [] \<and> (\<forall>d\<in>set orderedActivity. da_date d \<noteq> today (statsHost ?st)) \<and>
      sorted (map da_date orderedActivity)"
    by (simp add: getStats_statsHost today_statsHost orderedActivity_def activity_def)
  have l: "last orderedActivity = activity ''2024-01-05'' 50 5 9"
    by (simp add: orderedActivity_def)
  have tok: "sn_totalTokens (getTodayStats (statsHost ?st)) = 0"
    by (simp add: getTodayStats_def getStats_statsHost today_statsHost orderedActivity_def
        activity_def exampleStats_def lastOpt_def sumTokens_def)
  from getTodayStats_fallback_last_entry[of "statsHost ?st"] hyp
  have c: "chronologicallyLast orderedActivity (last orderedActivity) \<and>
        sn_messages (getTodayStats (statsHost ?st)) = or0 (da_messageCount (last orderedActivity)) \<and>
        sn_sessions (getTodayStats (statsHost ?st)) = or0 (da_sessionCount (last orderedActivity)) \<and>
        sn_toolCalls (getTodayStats (statsHost ?st)) = or0 (da_toolCallCount (last orderedActivity)) \<and>
        sn_date (getTodayStats (statsHost ?st)) =
          (if da_date (last orderedActivity) = [] then today (statsHost ?st)
           else da_date (last orderedActivity))"
    by blast
  have "getTodayStats (statsHost ?st) =
     \<lparr>sn_messages = 50, sn_sessions = 5, sn_toolCalls = 9, sn_totalTokens = 0,
       sn_date = ''2024-01-05''\<rparr>"
    using c tok by (cases "getTodayStats (statsHost ?st)") (simp add: l activity_def)
  then show ?thesis using z c by (simp add: l)
qed

text \<open>
  Where the claim as stated fails. With the entry of 2024-01-05 before the entry of
  2024-01-01 in the list, the snapshot is that of 2024-01-01, which is not the
  chronologically last entry (2024-01-05 is). With a single entry whose date is the
  empty string, the label is today's date, not the entry's.
\<close>

theorem getTodayStats_fallback_counterexample:
  "getTodayStats (statsHost (exampleStats\<lparr>st_dailyActivity := Some unorderedActivity\<rparr>)) =
     \<lparr>sn_messages = 10, sn_sessions = 1, sn_toolCalls = 2, sn_totalTokens = 0,
       sn_date = ''2024-01-01''\<rparr> \<and>
   \<not> chronologicallyLast unorderedActivity (activity ''2024-01-01'' 10 1 2) \<and>
   chronologicallyLast unorderedActivity (activity ''2024-01-05'' 50 5 9) \<and>
   sn_date (getTodayStats (statsHost (exampleStats\<lparr>st_dailyActivity := Some undatedActivity\<rparr>))) =
     ''2024-02-01'' \<and>
   da_date (last undatedActivity) = []"
  by (simp add: getTodayStats_def getStats_statsHost today_statsHost unorderedActivity_def
      undatedActivity_def activity_def exampleStats_def lastOpt_def sumTokens_def
      chronologicallyLast_def)

text \<open>
  C3. The claim: \<open>totalTokens\<close> is the sum of the per-model counts recorded for the
  resolved date. When there is no activity entry for today, the code takes the last
  entry of the daily-model-token list whatever its date. With activity on 2024-01-04
  and 2024-01-05 and token totals recorded for 2024-01-04 only, the snapshot is
  labelled 2024-01-05 and reports 120 tokens, the total of 2024-01-04; the total
  recorded for 2024-01-05 is zero.
\<close>

theorem getTodayStats_totalTokens_of_other_day:
  "sn_date (getTodayStats (statsHost tokensStats)) = ''2024-01-05'' \<and>
   sn_totalTokens (getTodayStats (statsHost tokensStats)) = 120 \<and>
   tokensForDate tokensStats ''2024-01-05'' = 0 \<and>
   tokensForDate tokensStats ''2024-01-04'' = 120"
  by (simp add: getTodayStats_def getStats_statsHost today_statsHost tokensStats_def
      activity_def exampleStats_def lastOpt_def findOpt_def sumTokens_def tokensForDate_def)

subsection \<open>Relative time\<close>

text \<open>
  C4, as amended. \<open>formatRelativeTime\<close> applied to an instant exactly 59 seconds in
  the past returns \<open>just now\<close>, and applied to an instant exactly 60 seconds in the
  past returns \<open>1m ago\<close>. In elapsed milliseconds \<open>d\<close>, with floor division: below
  60000 the label is \<open>just now\<close>, below 3600000 it is \<open>d div 60000\<close> minutes, below
  86400000 it is \<open>d div 3600000\<close> hours, below 604800000 it is \<open>d div 86400000\<close> days,
  and from there on the localized date.
\<close>

theorem formatRelativeTime_thresholds:
  "formatRelativeTime h (now h - 59000) = ''just now'' \<and>
   formatRelativeTime h (now h - 60000) = ''1m ago'' \<and>
   formatRelativeTime h date =
     (let d = now h - date
      in if d < 60000 then ''just now''
         else if d < 3600000 then show_int (d div 60000) @ ''m ago''
         else if d < 86400000 then show_int (d div 3600000) @ ''h ago''
         else if d < 604800000 then show_int (d div 86400000) @ ''d ago''
         else toLocaleDateString h date)"
proof -
  define d where "d = now h - date"
  have m1: "d div 60000 < 1 \<longleftrightarrow> d < 60000" by linarith
  have m2: "d div 60000 < 60 \<longleftrightarrow> d < 3600000" by linarith
  have m3: "d div 3600000 < 24 \<longleftrightarrow> d < 86400000" by linarith
  have m4: "d div 86400000 < 7 \<longleftrightarrow> d < 604800000" by linarith
  have "show_int 1 = ''1''"
    by (simp add: show_int_def show_nat.simps digit_char_def)
  then have a: "formatRelativeTime h (now h - 59000) = ''just now''"
    and b: "formatRelativeTime h (now h - 60000) = ''1m ago''"
    by (simp_all add: formatRelativeTime_def)
  have "formatRelativeTime h date =
     (if d < 60000 then ''just now''
      else if d < 3600000 then show_int (d div 60000) @ ''m ago''
      else if d < 86400000 then show_int (d div 3600000) @ ''h ago''
      else if d < 604800000 then show_int (d div 86400000) @ ''d ago''
      else toLocaleDateString h date)"
    unfolding formatRelativeTime_def Let_def d_def[symmetric]
    using m1 m2 m3 m4 by auto
  then show ?thesis using a b by (simp add: d_def Let_def)
qed

text \<open>The theorem two hours, three days and ten days after the instant.\<close>

theorem formatRelativeTime_thresholds_witness:
  "formatRelativeTime exampleHost (now exampleHost - 7200000) = ''2h ago'' \<and>
   formatRelativeTime exampleHost (now exampleHost - 259200000) = ''3d ago'' \<and>
   formatRelativeTime exampleHost (now exampleHost - 864000000) = ''2/1/2024''"
  using formatRelativeTime_thresholds[of exampleHost "now exampleHost - 7200000"]
    formatRelativeTime_thresholds[of exampleHost "now exampleHost - 259200000"]
    formatRelativeTime_thresholds[of exampleHost "now exampleHost - 864000000"]
  by (simp add: show_int_def show_nat.simps digit_char_def exampleHost_def)

text \<open>
  Where the claim as stated fails: 59 seconds after the instant the label is
  \<open>just now\<close>.
\<close>

theorem formatRelativeTime_59s_counterexample:
  "formatRelativeTime exampleHost (now exampleHost - 59000) = ''just now''"
  by (simp add: formatRelativeTime_def)

subsection \<open>Order of the scanners' results\<close>

text \<open>
  C5, as amended. The project list \<open>getProjects\<close> returns is non-increasing by
  \<open>lastModified\<close>. The session list inside a returned project is non-increasing by
  modified time when the modified string of every session of the project is a date,
  and the session list of the Codex scanner is non-increasing by session timestamp
  when the timestamp of every session is a date.
\<close>

theorem scanners_sorted_descending:
  "(\<forall>ps. getProjects h = Inr ps \<longrightarrow>
      sorted_wrt (\<lambda>a b. pi_lastModified b \<le> pi_lastModified a) ps \<and>
      (\<forall>p\<in>set ps. (\<forall>s\<in>set (pi_sessions p). session_time h s \<noteq> None) \<longrightarrow>
         sorted_wrt (\<lambda>a b. time_ge (session_time h a) (session_time h b)) (pi_sessions p))) \<and>
   ((\<forall>s\<in>set (getSessions h). codex_time h s \<noteq> None) \<longrightarrow>
      sorted_wrt (\<lambda>a b. time_ge (codex_time h a) (codex_time h b)) (getSessions h))"
  using getProjects_sorted getProjects_mem scanProjectEntry_sorted getSessions_sorted
  by blast

text \<open>
  The theorem on the example trees: the project scanned second comes first, the
  sessions of each project and of the Codex scanner come newest first.
\<close>

theorem scanners_sorted_descending_witness:
  "map pi_name (projectList (getProjects scanHost)) = [''app'', ''web''] \<and>
   map pi_lastModified (projectList (getProjects scanHost)) = [1704412800000, 1704240000000] \<and>
   map (map (session_time scanHost) \<circ> pi_sessions) (projectList (getProjects scanHost)) =
     [[Some 1704412800000, Some 1704153600000], [Some 1704240000000]] \<and>
   sorted_wrt (\<lambda>a b. pi_lastModified b \<le> pi_lastModified a) (projectList (getProjects scanHost)) \<and>
   sorted_wrt (\<lambda>a b. time_ge (session_time scanHost a) (session_time scanHost b))
     (pi_sessions (hd (projectList (getProjects scanHost)))) \<and>
   map (codex_time scanHost) (getSessions scanHost) = [Some 1704412800000, Some 1704153600000] \<and>
   sorted_wrt (\<lambda>a b. time_ge (codex_time scanHost a) (codex_time scanHost b)) (getSessions scanHost)"
  using scanners_sorted_descending[of scanHost]
  by (simp add: getProjects_scanHost getSessions_scanHost session_time_scanHost
      codex_time_scanHost projectList_def)

text \<open>
  Where the claim as stated fails. A project whose sessions are dated 2024-01-02,
  \<open>garbage\<close> and 2024-01-05 keeps them in that order, and so does the Codex scanner
  for transcripts dated 2024-01-02, undated and 2024-01-05: every comparison with the
  session that has no date is \<open>NaN\<close>, which \<open>sort\<close> reads as equal, so each session
  compares as equal to its neighbour, the array is one run already in order, and
  nothing is moved. The later session stays behind the earlier one, and the list is
  not non-increasing.
\<close>

theorem scanners_sorted_descending_counterexample:
  "map (map cs_modified \<circ> pi_sessions) (projectList (getProjects garbledHost)) =
     [[''2024-01-02'', ''garbage'', ''2024-01-05'']] \<and>
   map (map (session_time garbledHost) \<circ> pi_sessions) (projectList (getProjects garbledHost)) =
     [[Some 1704153600000, None, Some 1704412800000]] \<and>
   \<not> sorted_wrt (\<lambda>a b. time_ge (session_time garbledHost a) (session_time garbledHost b))
       (pi_sessions (hd (projectList (getProjects garbledHost)))) \<and>
   map cx_timestamp (getSessions garbledHost) =
     [JStr ''2024-01-02'', JUndefined, JStr ''2024-01-05''] \<and>
   map (codex_time garbledHost) (getSessions garbledHost) =
     [Some 1704153600000, None, Some 1704412800000] \<and>
   \<not> sorted_wrt (\<lambda>a b. time_ge (codex_time garbledHost a) (codex_time garbledHost b))
       (getSessions garbledHost)"
proof -
  have a: "map (map cs_modified \<circ> pi_sessions) (projectList (getProjects garbledHost)) =
     [[''2024-01-02'', ''garbage'', ''2024-01-05'']]"
    by (simp add: getProjects_garbledHost projectList_def exampleSession_def)
  have b: "map (map (session_time garbledHost) \<circ> pi_sessions) (projectList (getProjects garbledHost)) =
     [[Some 1704153600000, None, Some 1704412800000]]"
    by (simp add: getProjects_garbledHost projectList_def session_time_garbledHost)
  have c: "\<not> sorted_wrt (\<lambda>a b. time_ge (session_time garbledHost a) (session_time garbledHost b))
       (pi_sessions (hd (projectList (getProjects garbledHost))))"
    by (simp add: getProjects_garbledHost projectList_def session_time_garbledHost)
  have d: "map cx_timestamp (getSessions garbledHost) =
     [JStr ''2024-01-02'', JUndefined, JStr ''2024-01-05'']"
    by (simp add: getSessions_garbledHost exampleCodexSession_def undatedCodexSession_def)
  have e: "map (codex_time garbledHost) (getSessions garbledHost) =
     [Some 1704153600000, None, Some 1704412800000]"
    by (simp add: getSessions_garbledHost codex_time_garbledHost)
  have f: "\<not> sorted_wrt (\<lambda>a b. time_ge (codex_time garbledHost a) (codex_time garbledHost b))
       (getSessions garbledHost)"
    by (simp add: getSessions_garbledHost codex_time_garbledHost)
  show ?thesis using a b c d e f by blast
qed

subsection \<open>Message totals\<close>

text \<open>
  C6. For every project \<open>getProjects\<close> returns, \<open>totalMessages\<close> is the sum of the
  \<open>messageCount\<close> of the sessions the project contains.
\<close>

theorem getProjects_totalMessages:
  assumes "getProjects h = Inr ps"
  shows "\<forall>p\<in>set ps. pi_totalMessages p = sum_list (map cs_messageCount (pi_sessions p))"
  using assms getProjects_mem scanProjectEntry_total by blast

text \<open>The theorem on the example tree: 4 + 3 messages in one project, 10 in the other.\<close>

theorem getProjects_totalMessages_witness:
  "map pi_totalMessages (projectList (getProjects scanHost)) = [7, 10] \<and>
   map (map cs_messageCount \<circ> pi_sessions) (projectList (getProjects scanHost)) = [[4, 3], [10]] \<and>
   map (sum_list \<circ> map cs_messageCount \<circ> pi_sessions) (projectList (getProjects scanHost)) =
     map pi_totalMessages (projectList (getProjects scanHost))"
  using getProjects_totalMessages[OF getProjects_scanHost]
  by (simp add: getProjects_scanHost projectList_def exampleSession_def)

subsection \<open>A missing root\<close>

text \<open>
  C7. When the directory \<open>~/.claude/projects\<close> is absent, \<open>getProjects\<close> returns the
  empty list (a result, not an exception); when \<open>~/.codex/sessions\<close> is absent,
  \<open>getSessions\<close> returns the empty list.
\<close>

theorem missing_root_gives_empty:
  "(fs h (path_join (claudeDir h) ''projects'') = None \<longrightarrow> getProjects h = Inr []) \<and>
   (fs h (path_join (codexDir h) ''sessions'') = None \<longrightarrow> getSessions h = [])"
  by (simp add: getProjects_def getSessions_def existsSync_def)

text \<open>The theorem on the host with an empty file system.\<close>

theorem missing_root_gives_empty_witness:
  "fs exampleHost (path_join (claudeDir exampleHost) ''projects'') = None \<and>
   getProjects exampleHost = Inr [] \<and>
   fs exampleHost (path_join (codexDir exampleHost) ''sessions'') = None \<and>
   getSessions exampleHost = []"
  using missing_root_gives_empty[of exampleHost]
  by (simp add: exampleHost_def)

subsection \<open>Recovering the project path\<close>

text \<open>
  C8, as amended. Escaping a working-directory path and then recovering it with
  \<open>unescapePath\<close> yields the original path exactly when the path contains no hyphen:
  \<open>unescapePath\<close> turns every hyphen of the directory name into a separator, the
  escaped separators and the literal hyphens alike, so its result never contains a
  hyphen.
\<close>

theorem unescapePath_roundtrip_iff:
  "(unescapePath (escapePath p) = p \<longleftrightarrow> CHR ''-'' \<notin> set p) \<and>
   CHR ''-'' \<notin> set (unescapePath e)"
proof
  show "unescapePath (escapePath p) = p \<longleftrightarrow> CHR ''-'' \<notin> set p"
    by (induction p) (auto simp: unescapePath_def escapePath_def)
  show "CHR ''-'' \<notin> set (unescapePath e)"
    by (auto simp: unescapePath_def)
qed

text \<open>The theorem on a path without a hyphen.\<close>

theorem unescapePath_roundtrip_iff_witness:
  "CHR ''-'' \<notin> set ''/home/u/app'' \<and>
   escapePath ''/home/u/app'' = ''-home-u-app'' \<and>
   unescapePath (escapePath ''/home/u/app'') = ''/home/u/app''"
  using unescapePath_roundtrip_iff[of "''/home/u/app''" "[]"]
  by (simp add: escapePath_def)

text \<open>
  Where the claim as stated fails: the path \<open>/home/u/my-app\<close> is recovered as
  \<open>/home/u/my/app\<close>.
\<close>

theorem unescapePath_roundtrip_counterexample:
  "unescapePath (escapePath ''/home/u/my-app'') = ''/home/u/my/app'' \<and>
   unescapePath (escapePath ''/home/u/my-app'') \<noteq> ''/home/u/my-app''"
  by (simp add: unescapePath_def escapePath_def)

subsection \<open>Transcripts without session metadata\<close>

text \<open>
  C9. When the first line of the file at a path does not carry session metadata under
  the recognized envelope (the file is unreadable, the line is not JSON, or the parsed
  value is not an object of type \<open>session_meta\<close> with a payload), \<open>parseSessionFile\<close>
  returns \<open>null\<close> for it; no session of the list \<open>getSessions\<close> returns has that path
  as its file; and the loop over the files of a day goes on as if the file were not
  listed.
\<close>

theorem parseSessionFile_excludes_unrecognized:
  assumes "\<not> carriesSessionMeta h p"
  shows "parseSessionFile h p = None \<and>
         (\<forall>s\<in>set (getSessions h). cx_filePath s \<noteq> p) \<and>
         (\<forall>dayPath fname before after sessions.
            p = path_join dayPath fname \<longrightarrow>
              walkFiles h dayPath (before @ fname # after) sessions =
                walkFiles h dayPath (before @ after) sessions)"
proof (intro conjI allI impI)
  show n: "parseSessionFile h p = None"
    using assms parseSessionFile_Some[of h p] by (cases "parseSessionFile h p") auto
  show "\<forall>s\<in>set (getSessions h). cx_filePath s \<noteq> p"
  proof
    fix s assume "s \<in> set (getSessions h)"
    then have "parseSessionFile h (cx_filePath s) = Some s"
      using getSessions_fromFile by (simp add: fromFile_def)
    then have "carriesSessionMeta h (cx_filePath s)"
      using parseSessionFile_Some by blast
    then show "cx_filePath s \<noteq> p" using assms by auto
  qed
  fix dayPath fname before after sessions
  assume "p = path_join dayPath fname"
  then have "parseSessionFile h (path_join dayPath fname) = None" using n by simp
  then show "walkFiles h dayPath (before @ fname # after) sessions =
               walkFiles h dayPath (before @ after) sessions"
    by (rule walkFiles_skips)
qed

text \<open>
  The theorem on the example tree: the transcript \<open>b.jsonl\<close>, whose first line is an
  object of type \<open>not_session_meta\<close>, is not in the list; its neighbours listed before
  and after it are.
\<close>

theorem parseSessionFile_excludes_unrecognized_witness:
  "firstEvent scanHost ''/home/u/.codex/sessions/2024/01/05/b.jsonl'' =
     Some (JObj [(''type'', JStr ''not_session_meta'')]) \<and>
   \<not> carriesSessionMeta scanHost ''/home/u/.codex/sessions/2024/01/05/b.jsonl'' \<and>
   parseSessionFile scanHost ''/home/u/.codex/sessions/2024/01/05/b.jsonl'' = None \<and>
   map cx_filePath (getSessions scanHost) =
     [''/home/u/.codex/sessions/2024/01/05/c.jsonl'', ''/home/u/.codex/sessions/2024/01/05/a.jsonl'']"
proof -
  have fe: "firstEvent scanHost ''/home/u/.codex/sessions/2024/01/05/b.jsonl'' =
     Some (JObj [(''type'', JStr ''not_session_meta'')])"
    by (simp add: firstEvent_def scanHost_def exampleHost_def notMetaLine_def quoted_def)
  then have n: "\<not> carriesSessionMeta scanHost ''/home/u/.codex/sessions/2024/01/05/b.jsonl''"
    by (simp add: carriesSessionMeta_def sessionMetaEnvelope_def)
  from parseSessionFile_excludes_unrecognized[OF n]
  have "parseSessionFile scanHost ''/home/u/.codex/sessions/2024/01/05/b.jsonl'' = None"
    by (rule conjunct1)
  then show ?thesis
    using fe n by (simp add: getSessions_scanHost exampleCodexSession_def)
qed

subsection \<open>The history tail\<close>

text \<open>
  C10. For a history file and a limit greater than zero, \<open>getRecentHistory\<close> returns
  the entries parsed from the last \<open>limit\<close> non-empty lines of the file, newest first,
  so at most \<open>limit\<close> entries; for the limit zero it returns every parseable entry of
  the file, newest first (\<open>slice(-0)\<close> is \<open>slice(0)\<close>, the whole list).
\<close>

theorem getRecentHistory_tail_newest_first:
  assumes "fs h (path_join (claudeDir h) ''history.jsonl'') = Some (File content sz)"
  shows "(0 < limit \<longrightarrow>
            getRecentHistory h limit =
              rev (List.map_filter (JSON_parse_history h)
                     (drop (length (nonEmptyLines content) - nat limit) (nonEmptyLines content))) \<and>
            length (getRecentHistory h limit) \<le> nat limit) \<and>
         getRecentHistory h 0 = rev (List.map_filter (JSON_parse_history h) (nonEmptyLines content))"
proof -
  have g: "getRecentHistory h l =
             rev (List.map_filter (JSON_parse_history h) (js_slice (- l) (nonEmptyLines content)))" for l
    using assms by (simp add: getRecentHistory_def existsSync_def readFileSync_def Let_def)
  have g0: "getRecentHistory h 0 =
              rev (List.map_filter (JSON_parse_history h) (nonEmptyLines content))"
    by (simp add: g js_slice_def)
  have gl: "getRecentHistory h limit =
              rev (List.map_filter (JSON_parse_history h)
                     (drop (length (nonEmptyLines content) - nat limit) (nonEmptyLines content)))"
    if "0 < limit"
    using that by (simp only: g js_slice_neg)
  have "length (List.map_filter (JSON_parse_history h)
                  (drop (length (nonEmptyLines content) - nat limit) (nonEmptyLines content)))
         \<le> length (drop (length (nonEmptyLines content) - nat limit) (nonEmptyLines content))"
    by (rule length_map_filter_le)
  also have "\<dots> \<le> nat limit" by simp
  finally have len: "length (getRecentHistory h limit) \<le> nat limit" if "0 < limit"
    using gl[OF that] by simp
  show ?thesis using g0 gl len by blast
qed

text \<open>
  The theorem on the example history (lines \<open>h1\<close>, \<open>h2\<close>, \<open>bad\<close>, \<open>h3\<close>): the limit
  2 gives the one parseable entry of the last two lines, the limit 0 gives all three
  parseable entries, newest first.
\<close>

theorem getRecentHistory_tail_newest_first_witness:
  "fs historyHost (path_join (claudeDir historyHost) ''history.jsonl'') =
     Some (File (''h1'' @ [CHR 0x0A] @ ''h2'' @ [CHR 0x0A] @ ''bad'' @ [CHR 0x0A] @ ''h3''
                 @ [CHR 0x0A]) 13) \<and>
   getRecentHistory historyHost 2 = [historyEntry ''h3''] \<and>
   length (getRecentHistory historyHost 2) \<le> 2 \<and>
   getRecentHistory historyHost 0 = [historyEntry ''h3'', historyEntry ''h2'', historyEntry ''h1'']"
proof -
  have f: "fs historyHost (path_join (claudeDir historyHost) ''history.jsonl'') =
     Some (File (''h1'' @ [CHR 0x0A] @ ''h2'' @ [CHR 0x0A] @ ''bad'' @ [CHR 0x0A] @ ''h3''
                 @ [CHR 0x0A]) 13)"
    by (simp add: historyHost_def exampleHost_def claudeDir_def path_join_def)
  have z: "(0::int) < 2" by simp
  have len: "length (getRecentHistory historyHost 2) \<le> nat 2"
    using getRecentHistory_tail_newest_first[OF f, of 2] z by blast
  show ?thesis
    using f len by (simp add: getRecentHistory_historyHost)
qed

end
